theory Spec2Isabelle
  imports Complex_Main
begin

section \<open>Numbers, vectors and quaternions\<close>

text \<open>
  The simulator is TypeScript: every \<^verbatim>\<open>number\<close> is modelled as a real, so arithmetic is
  exact (no rounding, no NaN, no infinities: every delta is finite). Timestamps and counters,
  which the code only ever holds as integers, are \<^typ>\<open>int\<close> and \<^typ>\<open>nat\<close>.

  \<^verbatim>\<open>CANNON.Vec3\<close> and \<^verbatim>\<open>CANNON.Quaternion\<close> are the physics library's value
  classes; the operations below are the library methods the excavator calls.
\<close>

datatype Vec3 = Vec3 (vec_x: real) (vec_y: real) (vec_z: real)

datatype Quaternion = Quaternion (quat_x: real) (quat_y: real) (quat_z: real) (quat_w: real)

definition vec_zero :: Vec3 where
  "vec_zero = Vec3 0 0 0"

definition quat_identity :: Quaternion where
  "quat_identity = Quaternion 0 0 0 1"

fun vadd :: "Vec3 \<Rightarrow> Vec3 \<Rightarrow> Vec3" where
  "vadd (Vec3 x y z) (Vec3 a b c) = Vec3 (x + a) (y + b) (z + c)"

fun vsub :: "Vec3 \<Rightarrow> Vec3 \<Rightarrow> Vec3" where
  "vsub (Vec3 x y z) (Vec3 a b c) = Vec3 (x - a) (y - b) (z - c)"

fun scale :: "Vec3 \<Rightarrow> real \<Rightarrow> Vec3" where
  "scale (Vec3 x y z) s = Vec3 (s * x) (s * y) (s * z)"

fun cross :: "Vec3 \<Rightarrow> Vec3 \<Rightarrow> Vec3" where
  "cross (Vec3 x y z) (Vec3 a b c) = Vec3 (y * c - z * b) (z * a - x * c) (x * b - y * a)"

fun dot :: "Vec3 \<Rightarrow> Vec3 \<Rightarrow> real" where
  "dot (Vec3 x y z) (Vec3 a b c) = x * a + y * b + z * c"

text \<open>\<^verbatim>\<open>Quaternion.vmult(v, target)\<close>: the vector \<open>v\<close> rotated by the quaternion,
  computed as \<open>q v q\<^sup>*\<close> the way the library writes it out.\<close>

fun vmult :: "Quaternion \<Rightarrow> Vec3 \<Rightarrow> Vec3" where
  "vmult (Quaternion qx qy qz qw) (Vec3 x y z) =
     (let ix = qw * x + qy * z - qz * y;
          iy = qw * y + qz * x - qx * z;
          iz = qw * z + qx * y - qy * x;
          iw = - qx * x - qy * y - qz * z
      in Vec3 (ix * qw + iw * - qx + iy * - qz - iz * - qy)
              (iy * qw + iw * - qy + iz * - qx - ix * - qz)
              (iz * qw + iw * - qz + ix * - qy - iy * - qx))"

text \<open>\<^verbatim>\<open>THREE.MathUtils.clamp(value, min, max)\<close> is
  \<^verbatim>\<open>Math.max(min, Math.min(max, value))\<close>.\<close>

definition clamp :: "real \<Rightarrow> real \<Rightarrow> real \<Rightarrow> real" where
  "clamp v lo hi = max lo (min hi v)"

text \<open>\<^verbatim>\<open>Math.PI\<close> is the double nearest to \<open>\<pi>\<close>; as a fraction it is
  \<open>884279719003555 / 2\<^sup>4\<^sup>8\<close>.\<close>

definition Math_PI :: real where
  "Math_PI = 884279719003555 / 281474976710656"


section \<open>Rigid bodies\<close>

datatype BodyType = DYNAMIC | STATIC | KINEMATIC

text \<open>The fields of \<^verbatim>\<open>CANNON.Body\<close> the excavator reads or writes. Every body here
  has one box shape, so \<open>halfExtents\<close> stands for \<^verbatim>\<open>shapes[0].halfExtents\<close>.\<close>

record Body =
  body_id :: nat
  btype :: BodyType
  mass :: real
  halfExtents :: Vec3
  position :: Vec3
  quaternion :: Quaternion
  velocity :: Vec3
  angularVelocity :: Vec3
  force :: Vec3
  torque :: Vec3

text \<open>\<^verbatim>\<open>new CANNON.Body({mass, position, shape, type})\<close>: a body with no explicit type is
  static when its mass is not positive and dynamic otherwise; it starts at rest with the
  identity orientation and empty force and torque accumulators.\<close>

definition new_Body :: "nat \<Rightarrow> BodyType option \<Rightarrow> real \<Rightarrow> Vec3 \<Rightarrow> Vec3 \<Rightarrow> Body" where
  "new_Body i ty m pos he =
     \<lparr> body_id = i,
       btype = (case ty of Some t \<Rightarrow> t | None \<Rightarrow> if m \<le> 0 then STATIC else DYNAMIC),
       mass = m,
       halfExtents = he,
       position = pos,
       quaternion = quat_identity,
       velocity = vec_zero,
       angularVelocity = vec_zero,
       force = vec_zero,
       torque = vec_zero \<rparr>"

text \<open>\<^verbatim>\<open>Body.applyForce(force, relativePoint)\<close> and \<^verbatim>\<open>Body.applyTorque(torque)\<close>
  do nothing unless the body is dynamic; otherwise they add to the accumulators, the force
  also adding the moment \<open>relativePoint \<times> force\<close> to the torque. (The world is created
  without \<^verbatim>\<open>allowSleep\<close>, so no body is ever asleep and the wake-up branch never runs.)\<close>

definition applyForce :: "Vec3 \<Rightarrow> Vec3 \<Rightarrow> Body \<Rightarrow> Body" where
  "applyForce f relativePoint b =
     (if btype b \<noteq> DYNAMIC then b
      else b\<lparr> force := vadd (force b) f,
              torque := vadd (torque b) (cross relativePoint f) \<rparr>)"

definition applyTorque :: "Vec3 \<Rightarrow> Body \<Rightarrow> Body" where
  "applyTorque t b =
     (if btype b \<noteq> DYNAMIC then b
      else b\<lparr> torque := vadd (torque b) t \<rparr>)"


section \<open>The excavator\<close>

subsection \<open>Constants\<close>

text \<open>The dimension constants \<^verbatim>\<open>createPhysics\<close> uses, gathered in a record so that the
  mass distribution can be stated for any values of them.\<close>

record Dims =
  BASE_WIDTH :: real
  BASE_LENGTH :: real
  BASE_HEIGHT :: real
  TREAD_WIDTH :: real
  TREAD_HEIGHT :: real
  BLADE_WIDTH :: real
  BLADE_HEIGHT :: real
  ARM1_WIDTH :: real
  ARM1_LENGTH :: real
  ARM2_WIDTH :: real
  ARM2_LENGTH :: real
  BUCKET_SIZE :: real
  BLADE_FORWARD_OFFSET :: real
  BODY_BASE_WIDTH_MULT :: real
  BODY_BASE_HEIGHT_MULT :: real
  BODY_BASE_LENGTH_MULT :: real
  BUCKET_HEIGHT_MULT :: real
  THUMB_WIDTH :: real
  THUMB_LENGTH :: real
  THUMB_DEPTH :: real

definition dims :: Dims where
  "dims =
     \<lparr> BASE_WIDTH = 1.0,
       BASE_LENGTH = 2.0,
       BASE_HEIGHT = 0.2,
       TREAD_WIDTH = 0.25,
       TREAD_HEIGHT = 0.4,
       BLADE_WIDTH = 1.6,
       BLADE_HEIGHT = 0.4,
       ARM1_WIDTH = 0.3,
       ARM1_LENGTH = 2.8,
       ARM2_WIDTH = 0.2,
       ARM2_LENGTH = 1.5,
       BUCKET_SIZE = 0.5,
       BLADE_FORWARD_OFFSET = 0.1,
       BODY_BASE_WIDTH_MULT = 1.4,
       BODY_BASE_HEIGHT_MULT = 1.0,
       BODY_BASE_LENGTH_MULT = 0.8,
       BUCKET_HEIGHT_MULT = 0.8,
       THUMB_WIDTH = 0.3,
       THUMB_LENGTH = 0.8,
       THUMB_DEPTH = 0.1 \<rparr>"

text \<open>Control limits.\<close>

definition ARM1_MIN_ANGLE :: real where "ARM1_MIN_ANGLE = 0.0"
definition ARM1_MAX_ANGLE :: real where "ARM1_MAX_ANGLE = 1.25"
definition ARM2_MIN_ANGLE :: real where "ARM2_MIN_ANGLE = 0.25"
definition ARM2_MAX_ANGLE :: real where "ARM2_MAX_ANGLE = 2.25"
definition BUCKET_MIN_ANGLE :: real where "BUCKET_MIN_ANGLE = - Math_PI / 2"
definition BUCKET_MAX_ANGLE :: real where "BUCKET_MAX_ANGLE = 0.8"
definition THUMB_MIN_ANGLE :: real where "THUMB_MIN_ANGLE = - 3.0"
definition THUMB_MAX_ANGLE :: real where "THUMB_MAX_ANGLE = - 0.2"
definition BLADE_MIN_HEIGHT :: real where "BLADE_MIN_HEIGHT = - 0.5"
definition BLADE_MAX_HEIGHT :: real where "BLADE_MAX_HEIGHT = - 0.2"

text \<open>Collision force settings.\<close>

definition COLLISION_FORCE_MULTIPLIER :: real where "COLLISION_FORCE_MULTIPLIER = 1000"
definition PENETRATION_FORCE_MULTIPLIER :: real where "PENETRATION_FORCE_MULTIPLIER = 2"

subsection \<open>State\<close>

record CollisionData =
  partName :: string
  timestamp :: int
  contactNormal :: Vec3
  appliedForce :: Vec3
  isActive :: bool

text \<open>The mutable fields of \<^verbatim>\<open>class Excavator\<close>, without the meshes. The
  \<^verbatim>\<open>Map<string, CollisionData>\<close> is an association list in insertion order, which is
  the order a JavaScript \<^verbatim>\<open>Map\<close> iterates in.\<close>

record Excavator =
  physicsBody :: Body
  bladeBody :: Body
  mainBodyPhysics :: Body
  arm1Part1Body :: Body
  arm1Part2Body :: Body
  arm2Body :: Body
  bucketBody :: Body
  thumbBody :: Body
  collisionEvents :: "(string \<times> CollisionData) list"
  totalCollisions :: nat
  frameCollisions :: nat
  mainBodyRotation :: real
  arm1Angle :: real
  arm2Angle :: real
  bucketAngle :: real
  thumbAngle :: real
  bladeHeight :: real
  leftTreadForce :: real
  rightTreadForce :: real
  arm1AtLimit :: bool
  arm2AtLimit :: bool
  bucketAtLimit :: bool
  thumbAtLimit :: bool
  bladeAtLimit :: bool

subsection \<open>Control methods\<close>

definition setMainBodyRotation :: "real \<Rightarrow> Excavator \<Rightarrow> Excavator" where
  "setMainBodyRotation delta ex = ex\<lparr> mainBodyRotation := mainBodyRotation ex + delta \<rparr>"

definition setArm1Angle :: "real \<Rightarrow> Excavator \<Rightarrow> Excavator" where
  "setArm1Angle delta ex =
     (let oldAngle = arm1Angle ex;
          ex1 = ex\<lparr> arm1Angle := clamp (arm1Angle ex + delta) ARM1_MIN_ANGLE ARM1_MAX_ANGLE \<rparr>
      in ex1\<lparr> arm1AtLimit := (delta \<noteq> 0 \<and> arm1Angle ex1 = oldAngle) \<rparr>)"

definition setArm2Angle :: "real \<Rightarrow> Excavator \<Rightarrow> Excavator" where
  "setArm2Angle delta ex =
     (let oldAngle = arm2Angle ex;
          ex1 = ex\<lparr> arm2Angle := clamp (arm2Angle ex + delta) ARM2_MIN_ANGLE ARM2_MAX_ANGLE \<rparr>
      in ex1\<lparr> arm2AtLimit := (delta \<noteq> 0 \<and> arm2Angle ex1 = oldAngle) \<rparr>)"

definition setBucketAngle :: "real \<Rightarrow> Excavator \<Rightarrow> Excavator" where
  "setBucketAngle delta ex =
     (let oldAngle = bucketAngle ex;
          ex1 = ex\<lparr> bucketAngle :=
                      clamp (bucketAngle ex + delta) BUCKET_MIN_ANGLE BUCKET_MAX_ANGLE \<rparr>
      in ex1\<lparr> bucketAtLimit := (delta \<noteq> 0 \<and> bucketAngle ex1 = oldAngle) \<rparr>)"

definition setThumbAngle :: "real \<Rightarrow> Excavator \<Rightarrow> Excavator" where
  "setThumbAngle delta ex =
     (let oldAngle = thumbAngle ex;
          ex1 = ex\<lparr> thumbAngle := clamp (thumbAngle ex + delta) THUMB_MIN_ANGLE THUMB_MAX_ANGLE \<rparr>
      in ex1\<lparr> thumbAtLimit := (delta \<noteq> 0 \<and> thumbAngle ex1 = oldAngle) \<rparr>)"

definition setBladeHeight :: "real \<Rightarrow> Excavator \<Rightarrow> Excavator" where
  "setBladeHeight delta ex =
     (let oldHeight = bladeHeight ex;
          ex1 = ex\<lparr> bladeHeight :=
                      clamp (bladeHeight ex + delta) BLADE_MIN_HEIGHT BLADE_MAX_HEIGHT \<rparr>
      in ex1\<lparr> bladeAtLimit := (delta \<noteq> 0 \<and> bladeHeight ex1 = oldHeight) \<rparr>)"

definition setTreadForces :: "real \<Rightarrow> real \<Rightarrow> Excavator \<Rightarrow> Excavator" where
  "setTreadForces leftSpeed rightSpeed ex =
     ex\<lparr> leftTreadForce := leftSpeed, rightTreadForce := rightSpeed \<rparr>"

definition applyTreadForces :: "real \<Rightarrow> real \<Rightarrow> Excavator \<Rightarrow> Excavator" where
  "applyTreadForces leftSpeed rightSpeed ex =
     (let forceStrength = 1500;
          torqueStrength = 200;
          forward = vmult (quaternion (physicsBody ex)) (Vec3 0 0 1);
          avgSpeed = (leftSpeed + rightSpeed) / 2;
          f = scale forward (avgSpeed * forceStrength);
          body1 = applyForce f vec_zero (physicsBody ex);
          diff = rightSpeed - leftSpeed;
          t = Vec3 0 (diff * torqueStrength) 0
      in ex\<lparr> physicsBody := applyTorque t body1 \<rparr>)"


subsection \<open>Construction\<close>

text \<open>\<^verbatim>\<open>createPhysics\<close> distributes the total mass over the chassis and the seven proxy
  parts in proportion to their box volumes.\<close>

definition chassisVolume :: "Dims \<Rightarrow> real" where
  "chassisVolume d =
     (BASE_WIDTH d + TREAD_WIDTH d * 2) * (BASE_HEIGHT d + TREAD_HEIGHT d) * BASE_LENGTH d"

definition bladeVolume :: "Dims \<Rightarrow> real" where
  "bladeVolume d = BLADE_WIDTH d * BLADE_HEIGHT d * BLADE_FORWARD_OFFSET d"

definition mainBodyVolume :: "Dims \<Rightarrow> real" where
  "mainBodyVolume d =
     (BASE_WIDTH d * BODY_BASE_WIDTH_MULT d) * (BASE_WIDTH d * BODY_BASE_HEIGHT_MULT d)
       * (BASE_LENGTH d * BODY_BASE_LENGTH_MULT d)"

definition arm1SegmentLength :: "Dims \<Rightarrow> real" where
  "arm1SegmentLength d = ARM1_LENGTH d / 2"

definition arm1Part1Volume :: "Dims \<Rightarrow> real" where
  "arm1Part1Volume d = ARM1_WIDTH d * arm1SegmentLength d * ARM1_WIDTH d"

definition arm1Part2Volume :: "Dims \<Rightarrow> real" where
  "arm1Part2Volume d = ARM1_WIDTH d * arm1SegmentLength d * ARM1_WIDTH d"

definition arm2Volume :: "Dims \<Rightarrow> real" where
  "arm2Volume d = ARM2_WIDTH d * ARM2_LENGTH d * ARM2_WIDTH d"

definition bucketVolume :: "Dims \<Rightarrow> real" where
  "bucketVolume d = BUCKET_SIZE d * (BUCKET_SIZE d * BUCKET_HEIGHT_MULT d) * BUCKET_SIZE d"

definition thumbVolume :: "Dims \<Rightarrow> real" where
  "thumbVolume d = THUMB_WIDTH d * THUMB_LENGTH d * THUMB_DEPTH d"

definition totalVolume :: "Dims \<Rightarrow> real" where
  "totalVolume d =
     chassisVolume d + bladeVolume d + mainBodyVolume d + arm1Part1Volume d + arm1Part2Volume d
       + arm2Volume d + bucketVolume d + thumbVolume d"

definition totalMass :: real where
  "totalMass = 907"

definition chassisMass :: "Dims \<Rightarrow> real" where
  "chassisMass d = (chassisVolume d / totalVolume d) * totalMass"

definition bladeMass :: "Dims \<Rightarrow> real" where
  "bladeMass d = (bladeVolume d / totalVolume d) * totalMass"

definition mainBodyMass :: "Dims \<Rightarrow> real" where
  "mainBodyMass d = (mainBodyVolume d / totalVolume d) * totalMass"

definition arm1Part1Mass :: "Dims \<Rightarrow> real" where
  "arm1Part1Mass d = (arm1Part1Volume d / totalVolume d) * totalMass"

definition arm1Part2Mass :: "Dims \<Rightarrow> real" where
  "arm1Part2Mass d = (arm1Part2Volume d / totalVolume d) * totalMass"

definition arm2Mass :: "Dims \<Rightarrow> real" where
  "arm2Mass d = (arm2Volume d / totalVolume d) * totalMass"

definition bucketMass :: "Dims \<Rightarrow> real" where
  "bucketMass d = (bucketVolume d / totalVolume d) * totalMass"

definition thumbMass :: "Dims \<Rightarrow> real" where
  "thumbMass d = (thumbVolume d / totalVolume d) * totalMass"

text \<open>The constructor: the field initialisers of the class, then \<^verbatim>\<open>createPhysics\<close>.
  \<open>pos\<close> is the position given to the constructor, and \<open>firstId\<close> the value of the
  library's body counter, which numbers the eight bodies in the order they are created.\<close>

definition new_Excavator :: "Dims \<Rightarrow> nat \<Rightarrow> Vec3 \<Rightarrow> Excavator" where
  "new_Excavator d firstId pos =
     \<lparr> physicsBody =
         new_Body firstId None (chassisMass d)
           (Vec3 (vec_x pos) (vec_y pos + (BASE_HEIGHT d + TREAD_HEIGHT d) / 2) (vec_z pos))
           (Vec3 ((BASE_WIDTH d + TREAD_WIDTH d * 2) / 2) ((BASE_HEIGHT d + TREAD_HEIGHT d) / 2)
              (BASE_LENGTH d / 2)),
       bladeBody =
         new_Body (firstId + 1) (Some KINEMATIC) (bladeMass d) vec_zero
           (Vec3 (BLADE_WIDTH d / 2) (BLADE_HEIGHT d / 2) (BLADE_FORWARD_OFFSET d / 2)),
       mainBodyPhysics =
         new_Body (firstId + 2) (Some KINEMATIC) (mainBodyMass d) vec_zero
           (Vec3 (BASE_WIDTH d * BODY_BASE_WIDTH_MULT d / 2)
              (BASE_WIDTH d * BODY_BASE_HEIGHT_MULT d / 2)
              (BASE_LENGTH d * BODY_BASE_LENGTH_MULT d / 2)),
       arm1Part1Body =
         new_Body (firstId + 3) (Some KINEMATIC) (arm1Part1Mass d) vec_zero
           (Vec3 (ARM1_WIDTH d / 2) (arm1SegmentLength d / 2) (ARM1_WIDTH d / 2)),
       arm1Part2Body =
         new_Body (firstId + 4) (Some KINEMATIC) (arm1Part2Mass d) vec_zero
           (Vec3 (ARM1_WIDTH d / 2) (arm1SegmentLength d / 2) (ARM1_WIDTH d / 2)),
       arm2Body =
         new_Body (firstId + 5) (Some KINEMATIC) (arm2Mass d) vec_zero
           (Vec3 (ARM2_WIDTH d / 2) (ARM2_LENGTH d / 2) (ARM2_WIDTH d / 2)),
       bucketBody =
         new_Body (firstId + 6) (Some KINEMATIC) (bucketMass d) vec_zero
           (Vec3 (BUCKET_SIZE d / 2) (BUCKET_SIZE d * BUCKET_HEIGHT_MULT d / 2)
              (BUCKET_SIZE d / 2)),
       thumbBody =
         new_Body (firstId + 7) (Some KINEMATIC) (thumbMass d) vec_zero
           (Vec3 (THUMB_WIDTH d / 2) (THUMB_LENGTH d / 2) (THUMB_DEPTH d / 2)),
       collisionEvents = [],
       totalCollisions = 0,
       frameCollisions = 0,
       mainBodyRotation = 0,
       arm1Angle = 0,
       arm2Angle = 0.25,
       bucketAngle = 0,
       thumbAngle = - 0.2,
       bladeHeight = - 0.2,
       leftTreadForce = 0,
       rightTreadForce = 0,
       arm1AtLimit = False,
       arm2AtLimit = False,
       bucketAtLimit = False,
       thumbAtLimit = False,
       bladeAtLimit = False \<rparr>"

text \<open>The excavator of the simulator: the ground body is created first (body 0), and the
  excavator is placed at \<open>(0, 1, 0)\<close>.\<close>

definition simulatorExcavator :: Excavator where
  "simulatorExcavator = new_Excavator dims 1 (Vec3 0 1 0)"

subsection \<open>The collision ledger\<close>

text \<open>\<^verbatim>\<open>Map.prototype.set\<close>: the value of an existing key is replaced where it stands, a
  new key is appended.\<close>

fun Map_set :: "'k \<Rightarrow> 'v \<Rightarrow> ('k \<times> 'v) list \<Rightarrow> ('k \<times> 'v) list" where
  "Map_set k v [] = [(k, v)]"
| "Map_set k v ((k', v') # kvs) =
     (if k' = k then (k, v) # kvs else (k', v') # Map_set k v kvs)"

text \<open>The bookkeeping both contact paths end with (\<open>now\<close> is what \<^verbatim>\<open>Date.now()\<close>
  returns there).\<close>

definition trackCollision :: "string \<Rightarrow> int \<Rightarrow> Vec3 \<Rightarrow> Vec3 \<Rightarrow> Excavator \<Rightarrow> Excavator" where
  "trackCollision name now normal f ex =
     ex\<lparr> totalCollisions := totalCollisions ex + 1,
         frameCollisions := frameCollisions ex + 1,
         collisionEvents :=
           Map_set name
             \<lparr> partName = name, timestamp = now, contactNormal = normal, appliedForce = f,
               isActive = True \<rparr>
             (collisionEvents ex) \<rparr>"

definition ageCollision :: "int \<Rightarrow> CollisionData \<Rightarrow> CollisionData" where
  "ageCollision now data = (if now - timestamp data > 100 then data\<lparr> isActive := False \<rparr> else data)"

definition resetFrameCollisions :: "int \<Rightarrow> Excavator \<Rightarrow> Excavator" where
  "resetFrameCollisions now ex =
     ex\<lparr> frameCollisions := 0,
         collisionEvents := map (\<lambda>(key, data). (key, ageCollision now data)) (collisionEvents ex) \<rparr>"

subsection \<open>Ground contact of the proxy bodies\<close>

definition kinematicBodies :: "Excavator \<Rightarrow> (Body \<times> string) list" where
  "kinematicBodies ex =
     [ (bladeBody ex, ''Blade''),
       (mainBodyPhysics ex, ''Main Body''),
       (arm1Part1Body ex, ''Arm 1 Seg 1''),
       (arm1Part2Body ex, ''Arm 1 Seg 2''),
       (arm2Body ex, ''Arm 2''),
       (bucketBody ex, ''Bucket''),
       (thumbBody ex, ''Thumb'') ]"

text \<open>The world height of the bottom of a body's box.\<close>

definition bottomY :: "Body \<Rightarrow> real" where
  "bottomY body =
     (let bottomOffset = vmult (quaternion body) (Vec3 0 (- vec_y (halfExtents body)) 0)
      in vec_y (position body) + vec_y bottomOffset)"

definition forceMagnitude :: "real \<Rightarrow> real" where
  "forceMagnitude penetration =
     COLLISION_FORCE_MULTIPLIER * (1 + penetration * PENETRATION_FORCE_MULTIPLIER)"

text \<open>One round of the loop of \<^verbatim>\<open>checkKinematicCollisions\<close>. \<open>clock name\<close> is the
  reading of \<^verbatim>\<open>Date.now()\<close> taken when the contact of the part \<open>name\<close> is recorded.\<close>

definition checkKinematicBody :: "(string \<Rightarrow> int) \<Rightarrow> Body \<times> string \<Rightarrow> Excavator \<Rightarrow> Excavator" where
  "checkKinematicBody clock bn ex =
     (case bn of (body, name) \<Rightarrow>
        if bottomY body < 0.01 then
          (let penetration = \<bar>bottomY body\<bar>;
               contactNormal = Vec3 0 1 0;
               f = scale contactNormal (forceMagnitude penetration);
               relativePos = vsub (position body) (position (physicsBody ex));
               ex1 = ex\<lparr> physicsBody := applyForce f relativePos (physicsBody ex) \<rparr>
           in trackCollision name (clock name) contactNormal f ex1)
        else ex)"

definition checkKinematicCollisions :: "(string \<Rightarrow> int) \<Rightarrow> Excavator \<Rightarrow> Excavator" where
  "checkKinematicCollisions clock ex = fold (checkKinematicBody clock) (kinematicBodies ex) ex"

subsection \<open>Collisions reported by the solver\<close>

text \<open>What the handler reads of a \<^verbatim>\<open>collide\<close> event's contact: the identity of body A and
  the contact normal.\<close>

record ContactEquation =
  bi :: nat
  ni :: Vec3

text \<open>\<^verbatim>\<open>Vec3.negate(target)\<close> returns the negated vector in \<open>target\<close>, a fresh vector when
  none is given; the vector it is called on stays as it is.\<close>

fun negate :: "Vec3 \<Rightarrow> Vec3" where
  "negate (Vec3 x y z) = Vec3 (- x) (- y) (- z)"

definition reactionForceMultiplier :: real where
  "reactionForceMultiplier = 5000"

text \<open>The helper \<^verbatim>\<open>applyCollisionForce\<close> of \<^verbatim>\<open>setupCollisionHandlers\<close>. In the branch
  for a part that is body B the code copies the normal and calls \<^verbatim>\<open>contactNormal.negate()\<close>
  without a target and without using the result, so the copied normal keeps its sign.\<close>

definition applyCollisionForce ::
  "ContactEquation option \<Rightarrow> Body \<Rightarrow> string \<Rightarrow> int \<Rightarrow> Excavator \<Rightarrow> Excavator" where
  "applyCollisionForce contact partBody name now ex =
     (case contact of
        None \<Rightarrow> ex
      | Some c \<Rightarrow>
          (let contactNormal =
                 (if bi c = body_id partBody then ni c
                  else (let copied = ni c; negated = negate copied in copied));
               f = scale contactNormal reactionForceMultiplier;
               relativePos = vsub (position partBody) (position (physicsBody ex));
               ex1 = ex\<lparr> physicsBody := applyForce f relativePos (physicsBody ex) \<rparr>
           in trackCollision name now contactNormal f ex1))"

text \<open>The seven \<^verbatim>\<open>collide\<close> listeners, one per proxy part.\<close>

datatype Part = Blade | MainBody | Arm1Seg1 | Arm1Seg2 | Arm2 | Bucket | Thumb

fun onCollide :: "Part \<Rightarrow> ContactEquation option \<Rightarrow> int \<Rightarrow> Excavator \<Rightarrow> Excavator" where
  "onCollide Blade c now ex = applyCollisionForce c (bladeBody ex) ''Blade'' now ex"
| "onCollide MainBody c now ex = applyCollisionForce c (mainBodyPhysics ex) ''Main Body'' now ex"
| "onCollide Arm1Seg1 c now ex = applyCollisionForce c (arm1Part1Body ex) ''Arm 1 Seg 1'' now ex"
| "onCollide Arm1Seg2 c now ex = applyCollisionForce c (arm1Part2Body ex) ''Arm 1 Seg 2'' now ex"
| "onCollide Arm2 c now ex = applyCollisionForce c (arm2Body ex) ''Arm 2'' now ex"
| "onCollide Bucket c now ex = applyCollisionForce c (bucketBody ex) ''Bucket'' now ex"
| "onCollide Thumb c now ex = applyCollisionForce c (thumbBody ex) ''Thumb'' now ex"


subsection \<open>Proxy poses\<close>

text \<open>\<^verbatim>\<open>updatePhysicsBodies\<close> overwrites the pose of each proxy body with a world position
  and orientation read from the scene graph; the scene graph is not modelled, so the pose is
  a parameter.\<close>

fun setProxyPose :: "Part \<Rightarrow> Vec3 \<Rightarrow> Quaternion \<Rightarrow> Excavator \<Rightarrow> Excavator" where
  "setProxyPose Blade p q ex = ex\<lparr> bladeBody := (bladeBody ex)\<lparr> position := p, quaternion := q \<rparr> \<rparr>"
| "setProxyPose MainBody p q ex =
     ex\<lparr> mainBodyPhysics := (mainBodyPhysics ex)\<lparr> position := p, quaternion := q \<rparr> \<rparr>"
| "setProxyPose Arm1Seg1 p q ex =
     ex\<lparr> arm1Part1Body := (arm1Part1Body ex)\<lparr> position := p, quaternion := q \<rparr> \<rparr>"
| "setProxyPose Arm1Seg2 p q ex =
     ex\<lparr> arm1Part2Body := (arm1Part2Body ex)\<lparr> position := p, quaternion := q \<rparr> \<rparr>"
| "setProxyPose Arm2 p q ex = ex\<lparr> arm2Body := (arm2Body ex)\<lparr> position := p, quaternion := q \<rparr> \<rparr>"
| "setProxyPose Bucket p q ex = ex\<lparr> bucketBody := (bucketBody ex)\<lparr> position := p, quaternion := q \<rparr> \<rparr>"
| "setProxyPose Thumb p q ex = ex\<lparr> thumbBody := (thumbBody ex)\<lparr> position := p, quaternion := q \<rparr> \<rparr>"


section \<open>The simulator's control handling\<close>

record GamepadState =
  leftStickX :: real
  leftStickY :: real
  rightStickX :: real
  rightStickY :: real
  leftTrigger :: real
  rightTrigger :: real
  leftBumper :: bool
  rightBumper :: bool
  dpadUp :: bool
  dpadDown :: bool
  buttonY :: bool
  buttonA :: bool

text \<open>\<^verbatim>\<open>getDefaultState\<close> of both controllers.\<close>

definition getDefaultState :: GamepadState where
  "getDefaultState =
     \<lparr> leftStickX = 0, leftStickY = 0, rightStickX = 0, rightStickY = 0,
       leftTrigger = 0, rightTrigger = 0,
       leftBumper = False, rightBumper = False,
       dpadUp = False, dpadDown = False,
       buttonY = False, buttonA = False \<rparr>"

text \<open>The first part of \<^verbatim>\<open>handleControls\<close>: the merged values, which the code holds in
  local constants of the same names.\<close>

definition mergeStates :: "GamepadState \<Rightarrow> GamepadState \<Rightarrow> GamepadState" where
  "mergeStates gamepadState keyboardState =
     \<lparr> leftStickX = max (- 1) (min 1 (leftStickX gamepadState + leftStickX keyboardState)),
       leftStickY = max (- 1) (min 1 (leftStickY gamepadState + leftStickY keyboardState)),
       rightStickX = max (- 1) (min 1 (rightStickX gamepadState + rightStickX keyboardState)),
       rightStickY = max (- 1) (min 1 (rightStickY gamepadState + rightStickY keyboardState)),
       leftTrigger = max (leftTrigger gamepadState) (leftTrigger keyboardState),
       rightTrigger = max (rightTrigger gamepadState) (rightTrigger keyboardState),
       leftBumper = (leftBumper gamepadState \<or> leftBumper keyboardState),
       rightBumper = (rightBumper gamepadState \<or> rightBumper keyboardState),
       dpadUp = (dpadUp gamepadState \<or> dpadUp keyboardState),
       dpadDown = (dpadDown gamepadState \<or> dpadDown keyboardState),
       buttonY = (buttonY gamepadState \<or> buttonY keyboardState),
       buttonA = (buttonA gamepadState \<or> buttonA keyboardState) \<rparr>"

text \<open>The tread speeds \<^verbatim>\<open>handleControls\<close> computes from the merged triggers and bumpers:
  each starts at 0, the trigger assigns it first and the bumper afterwards.\<close>

definition treadSpeeds :: "GamepadState \<Rightarrow> real \<times> real" where
  "treadSpeeds m =
     (let leftSpeed = 0;
          rightSpeed = 0;
          leftSpeed = (if leftTrigger m > 0 then leftTrigger m else leftSpeed);
          leftSpeed = (if leftBumper m then - 1.0 else leftSpeed);
          rightSpeed = (if rightTrigger m > 0 then rightTrigger m else rightSpeed);
          rightSpeed = (if rightBumper m then - 1.0 else rightSpeed)
      in (leftSpeed, rightSpeed))"

text \<open>\<^verbatim>\<open>handleControls(deltaTime)\<close>, given the states the two controllers report after
  their \<^verbatim>\<open>update()\<close>.\<close>

definition handleControls :: "real \<Rightarrow> GamepadState \<Rightarrow> GamepadState \<Rightarrow> Excavator \<Rightarrow> Excavator" where
  "handleControls deltaTime gamepadState keyboardState ex =
     (let m = mergeStates gamepadState keyboardState;
          rotationSpeed = 2.0 * deltaTime;
          ex = setMainBodyRotation (leftStickX m * rotationSpeed) ex;
          arm2Speed = 1.0 * deltaTime;
          ex = setArm2Angle (- leftStickY m * arm2Speed) ex;
          arm1Speed = 1.0 * deltaTime;
          ex = setArm1Angle (rightStickX m * arm1Speed) ex;
          bucketSpeed = 1.5 * deltaTime;
          ex = setBucketAngle (- rightStickY m * bucketSpeed) ex;
          thumbSpeed = 1.0 * deltaTime;
          thumbDelta = (if dpadUp m then - thumbSpeed else if dpadDown m then thumbSpeed else 0);
          ex = setThumbAngle thumbDelta ex;
          bladeSpeed = 0.5 * deltaTime;
          bladeDelta = (if buttonY m then - bladeSpeed else if buttonA m then bladeSpeed else 0);
          ex = setBladeHeight bladeDelta ex;
          (leftSpeed, rightSpeed) = treadSpeeds m;
          ex = setTreadForces leftSpeed rightSpeed ex
      in applyTreadForces leftSpeed rightSpeed ex)"


section \<open>Sequences of calls\<close>

text \<open>What can happen to an excavator between construction and any later moment: calls of
  its public methods, the post-step ground check, the solver's collide events, the pose sync
  and the simulator's control handling, in any order and with any arguments.\<close>

datatype Call =
    SetMainBodyRotation real
  | SetArm1Angle real
  | SetArm2Angle real
  | SetBucketAngle real
  | SetThumbAngle real
  | SetBladeHeight real
  | SetTreadForces real real
  | ApplyTreadForces real real
  | ResetFrameCollisions int
  | PostStep "string \<Rightarrow> int"
  | Collide Part "ContactEquation option" int
  | SyncPose Part Vec3 Quaternion
  | HandleControls real GamepadState GamepadState

fun call :: "Call \<Rightarrow> Excavator \<Rightarrow> Excavator" where
  "call (SetMainBodyRotation delta) ex = setMainBodyRotation delta ex"
| "call (SetArm1Angle delta) ex = setArm1Angle delta ex"
| "call (SetArm2Angle delta) ex = setArm2Angle delta ex"
| "call (SetBucketAngle delta) ex = setBucketAngle delta ex"
| "call (SetThumbAngle delta) ex = setThumbAngle delta ex"
| "call (SetBladeHeight delta) ex = setBladeHeight delta ex"
| "call (SetTreadForces l r) ex = setTreadForces l r ex"
| "call (ApplyTreadForces l r) ex = applyTreadForces l r ex"
| "call (ResetFrameCollisions now) ex = resetFrameCollisions now ex"
| "call (PostStep clock) ex = checkKinematicCollisions clock ex"
| "call (Collide part c now) ex = onCollide part c now ex"
| "call (SyncPose part p q) ex = setProxyPose part p q ex"
| "call (HandleControls dt g k) ex = handleControls dt g k ex"

definition run :: "Call list \<Rightarrow> Excavator \<Rightarrow> Excavator" where
  "run cs ex = fold call cs ex"


section \<open>Notions of the specification\<close>

text \<open>The clamp of the specification: a value below the range becomes its lower end, a value
  above it its upper end, and any other value is kept.\<close>

definition specClamp :: "real \<Rightarrow> real \<Rightarrow> real \<Rightarrow> real" where
  "specClamp v lo hi = (if v < lo then lo else if hi < v then hi else v)"

text \<open>Every limited joint is within its range.\<close>

definition jointsWithinLimits :: "Excavator \<Rightarrow> bool" where
  "jointsWithinLimits ex \<longleftrightarrow>
     ARM1_MIN_ANGLE \<le> arm1Angle ex \<and> arm1Angle ex \<le> ARM1_MAX_ANGLE \<and>
     ARM2_MIN_ANGLE \<le> arm2Angle ex \<and> arm2Angle ex \<le> ARM2_MAX_ANGLE \<and>
     BUCKET_MIN_ANGLE \<le> bucketAngle ex \<and> bucketAngle ex \<le> BUCKET_MAX_ANGLE \<and>
     THUMB_MIN_ANGLE \<le> thumbAngle ex \<and> thumbAngle ex \<le> THUMB_MAX_ANGLE \<and>
     BLADE_MIN_HEIGHT \<le> bladeHeight ex \<and> bladeHeight ex \<le> BLADE_MAX_HEIGHT"

text \<open>The sum of the masses of the seven proxy parts.\<close>

definition proxyMassSum :: "Excavator \<Rightarrow> real" where
  "proxyMassSum ex =
     mass (bladeBody ex) + mass (mainBodyPhysics ex) + mass (arm1Part1Body ex)
       + mass (arm1Part2Body ex) + mass (arm2Body ex) + mass (bucketBody ex) + mass (thumbBody ex)"



text \<open>The part names of the ledger.\<close>

definition ledgerKeys :: "Excavator \<Rightarrow> string list" where
  "ledgerKeys ex = map fst (collisionEvents ex)"

text \<open>What a call may do to the keys: keep them, or append new ones.\<close>

definition keysExtend :: "string list \<Rightarrow> string list \<Rightarrow> bool" where
  "keysExtend old new \<longleftrightarrow>
     set old \<subseteq> set new \<and> (distinct old \<longrightarrow> distinct new)"


section \<open>Sample states\<close>



text \<open>A proxy box of half-extents \<open>(0.15, 0.2, 0.15)\<close> at \<open>(0, 0.19, 0)\<close>, not rotated.\<close>

definition scenarioBody :: Body where
  "scenarioBody = new_Body 0 (Some KINEMATIC) 1 (Vec3 0 0.19 0) (Vec3 0.15 0.2 0.15)"

text \<open>The simulator's excavator after a ground check found that box in contact, as the
  bucket, at time 0.\<close>

definition contactExcavator :: Excavator where
  "contactExcavator = checkKinematicBody (\<lambda>_. 0) (scenarioBody, ''Bucket'') simulatorExcavator"

text \<open>The gamepad holds the left trigger fully and both bumpers; the keyboard holds the
  right trigger.\<close>

definition bumperGamepad :: GamepadState where
  "bumperGamepad = getDefaultState\<lparr> leftTrigger := 1, leftBumper := True, rightBumper := True \<rparr>"

definition triggerKeyboard :: GamepadState where
  "triggerKeyboard = getDefaultState\<lparr> rightTrigger := 1 \<rparr>"


section \<open>Joint limits\<close>

lemmas limit_defs =
  ARM1_MIN_ANGLE_def ARM1_MAX_ANGLE_def ARM2_MIN_ANGLE_def ARM2_MAX_ANGLE_def
  BUCKET_MIN_ANGLE_def BUCKET_MAX_ANGLE_def THUMB_MIN_ANGLE_def THUMB_MAX_ANGLE_def
  BLADE_MIN_HEIGHT_def BLADE_MAX_HEIGHT_def Math_PI_def

lemmas setter_defs =
  setArm1Angle_def setArm2Angle_def setBucketAngle_def setThumbAngle_def setBladeHeight_def

lemma clamp_specClamp: "lo \<le> hi \<Longrightarrow> clamp v lo hi = specClamp v lo hi"
  by (simp add: clamp_def specClamp_def max_def min_def)

lemma limits_ordered:
  "ARM1_MIN_ANGLE \<le> ARM1_MAX_ANGLE" "ARM2_MIN_ANGLE \<le> ARM2_MAX_ANGLE"
  "BUCKET_MIN_ANGLE \<le> BUCKET_MAX_ANGLE" "THUMB_MIN_ANGLE \<le> THUMB_MAX_ANGLE"
  "BLADE_MIN_HEIGHT \<le> BLADE_MAX_HEIGHT"
  by (simp_all add: limit_defs)

text \<open>
  \<^bold>\<open>C1.\<close> Each of the five limited setters (arm 1, arm 2, bucket, thumb, blade height)
  stores the clamp of \<open>current + delta\<close> to the joint's fixed range, and sets the joint's
  at-limit flag to true exactly when \<open>delta\<close> is not zero and the stored value equals the
  previous one. This holds for every delta and every current value, in range or not.
\<close>

theorem limited_setters_clamp_and_flag:
  "arm1Angle (setArm1Angle delta ex) = specClamp (arm1Angle ex + delta) ARM1_MIN_ANGLE ARM1_MAX_ANGLE
   \<and> arm1AtLimit (setArm1Angle delta ex)
       = (delta \<noteq> 0 \<and> arm1Angle (setArm1Angle delta ex) = arm1Angle ex)
   \<and> arm2Angle (setArm2Angle delta ex) = specClamp (arm2Angle ex + delta) ARM2_MIN_ANGLE ARM2_MAX_ANGLE
   \<and> arm2AtLimit (setArm2Angle delta ex)
       = (delta \<noteq> 0 \<and> arm2Angle (setArm2Angle delta ex) = arm2Angle ex)
   \<and> bucketAngle (setBucketAngle delta ex)
       = specClamp (bucketAngle ex + delta) BUCKET_MIN_ANGLE BUCKET_MAX_ANGLE
   \<and> bucketAtLimit (setBucketAngle delta ex)
       = (delta \<noteq> 0 \<and> bucketAngle (setBucketAngle delta ex) = bucketAngle ex)
   \<and> thumbAngle (setThumbAngle delta ex)
       = specClamp (thumbAngle ex + delta) THUMB_MIN_ANGLE THUMB_MAX_ANGLE
   \<and> thumbAtLimit (setThumbAngle delta ex)
       = (delta \<noteq> 0 \<and> thumbAngle (setThumbAngle delta ex) = thumbAngle ex)
   \<and> bladeHeight (setBladeHeight delta ex)
       = specClamp (bladeHeight ex + delta) BLADE_MIN_HEIGHT BLADE_MAX_HEIGHT
   \<and> bladeAtLimit (setBladeHeight delta ex)
       = (delta \<noteq> 0 \<and> bladeHeight (setBladeHeight delta ex) = bladeHeight ex)"
  by (simp add: setter_defs Let_def clamp_specClamp limits_ordered)

lemma simulatorExcavator_arm1Angle: "arm1Angle simulatorExcavator = 0"
  by (simp add: simulatorExcavator_def new_Excavator_def)

text \<open>
  \<^bold>\<open>C2\<close>, as the specification words it, fails: on the freshly constructed excavator, whose
  arm 1 is at 0 in the range \<open>[0, 1.25]\<close>, \<open>setArm1Angle 2\<close> stores 1.25 but does not
  raise the at-limit flag, because the stored value changed.
\<close>

theorem arm1_scenario_flag_counterexample:
  "\<not> (arm1Angle (setArm1Angle 2 simulatorExcavator) = 1.25
      \<and> arm1AtLimit (setArm1Angle 2 simulatorExcavator) = True)"
  by (simp add: setArm1Angle_def Let_def clamp_def limit_defs simulatorExcavator_arm1Angle)

text \<open>
  \<^bold>\<open>C2\<close>, amended. With arm 1 at 0, \<open>setArm1Angle 2\<close> stores 1.25 and leaves the at-limit
  flag false; repeating the call keeps 1.25 and sets the flag to true.
\<close>

theorem arm1_scenario:
  "arm1Angle ex = 0 \<longrightarrow>
     arm1Angle (setArm1Angle 2 ex) = 1.25
   \<and> arm1AtLimit (setArm1Angle 2 ex) = False
   \<and> arm1Angle (setArm1Angle 2 (setArm1Angle 2 ex)) = 1.25
   \<and> arm1AtLimit (setArm1Angle 2 (setArm1Angle 2 ex)) = True"
  by (simp add: setArm1Angle_def Let_def clamp_def limit_defs)

theorem arm1_scenario_witness:
  "arm1Angle simulatorExcavator = 0
   \<and> arm1Angle (setArm1Angle 2 simulatorExcavator) = 1.25
   \<and> arm1AtLimit (setArm1Angle 2 simulatorExcavator) = False
   \<and> arm1Angle (setArm1Angle 2 (setArm1Angle 2 simulatorExcavator)) = 1.25
   \<and> arm1AtLimit (setArm1Angle 2 (setArm1Angle 2 simulatorExcavator)) = True"
  using arm1_scenario [of simulatorExcavator] simulatorExcavator_arm1Angle by simp

subsection \<open>The ranges along sequences of calls\<close>

lemma clamp_within: "lo \<le> hi \<Longrightarrow> lo \<le> clamp v lo hi \<and> clamp v lo hi \<le> hi"
  by (simp add: clamp_def)

lemma new_Excavator_within: "jointsWithinLimits (new_Excavator d i p)"
  by (simp add: jointsWithinLimits_def new_Excavator_def limit_defs)

lemma setters_within:
  assumes "jointsWithinLimits ex"
  shows "jointsWithinLimits (setArm1Angle delta ex)"
    and "jointsWithinLimits (setArm2Angle delta ex)"
    and "jointsWithinLimits (setBucketAngle delta ex)"
    and "jointsWithinLimits (setThumbAngle delta ex)"
    and "jointsWithinLimits (setBladeHeight delta ex)"
  using assms
  by (simp_all add: jointsWithinLimits_def setter_defs Let_def clamp_within limits_ordered)

lemma other_methods_within:
  "jointsWithinLimits (setMainBodyRotation delta ex) = jointsWithinLimits ex"
  "jointsWithinLimits (setTreadForces l r ex) = jointsWithinLimits ex"
  "jointsWithinLimits (applyTreadForces l r ex) = jointsWithinLimits ex"
  "jointsWithinLimits (resetFrameCollisions now ex) = jointsWithinLimits ex"
  "jointsWithinLimits (trackCollision name now n f ex) = jointsWithinLimits ex"
  by (simp_all add: jointsWithinLimits_def setMainBodyRotation_def setTreadForces_def
      applyTreadForces_def resetFrameCollisions_def trackCollision_def Let_def)

lemma physicsBody_update_within:
  "jointsWithinLimits (ex\<lparr> physicsBody := b \<rparr>) = jointsWithinLimits ex"
  by (simp add: jointsWithinLimits_def)

lemma checkKinematicBody_within:
  "jointsWithinLimits (checkKinematicBody clock bn ex) = jointsWithinLimits ex"
  by (cases bn)
    (simp add: checkKinematicBody_def Let_def other_methods_within physicsBody_update_within)

lemma checkKinematicBodies_within:
  "jointsWithinLimits (fold (checkKinematicBody clock) bs ex) = jointsWithinLimits ex"
  by (induction bs arbitrary: ex) (simp_all add: checkKinematicBody_within)

lemma applyCollisionForce_within:
  "jointsWithinLimits (applyCollisionForce c b name now ex) = jointsWithinLimits ex"
  by (cases c)
    (simp_all add: applyCollisionForce_def Let_def other_methods_within physicsBody_update_within)

lemma onCollide_within: "jointsWithinLimits (onCollide part c now ex) = jointsWithinLimits ex"
  by (cases part) (simp_all add: applyCollisionForce_within)

lemma setProxyPose_within: "jointsWithinLimits (setProxyPose part p q ex) = jointsWithinLimits ex"
  by (cases part) (simp_all add: jointsWithinLimits_def)

lemma handleControls_within:
  "jointsWithinLimits ex \<Longrightarrow> jointsWithinLimits (handleControls dt g k ex)"
  by (simp add: handleControls_def Let_def split_def other_methods_within setters_within)

lemma call_within: "jointsWithinLimits ex \<Longrightarrow> jointsWithinLimits (call c ex)"
  by (cases c)
    (simp_all add: setters_within other_methods_within checkKinematicCollisions_def
      checkKinematicBodies_within onCollide_within setProxyPose_within handleControls_within)

lemma run_within: "jointsWithinLimits ex \<Longrightarrow> jointsWithinLimits (run cs ex)"
  unfolding run_def by (induction cs arbitrary: ex) (simp_all add: call_within)

lemma yaw_accumulates:
  "mainBodyRotation (run (map SetMainBodyRotation deltas) ex) = mainBodyRotation ex + sum_list deltas"
  unfolding run_def
  by (induction deltas arbitrary: ex) (simp_all add: setMainBodyRotation_def)

text \<open>
  \<^bold>\<open>C3\<close>, amended. After any sequence of calls on a freshly constructed excavator (the
  setters with any deltas, and every other modelled method in between), each of the five
  limited joints is within its range. The main-body yaw has no range: the yaw setter adds
  its delta unclamped, so after a sequence of yaw deltas the yaw is the old yaw plus their sum.
\<close>

theorem limited_joints_stay_in_range:
  "jointsWithinLimits (run cs (new_Excavator d i p))
   \<and> mainBodyRotation (run (map SetMainBodyRotation deltas) ex)
       = mainBodyRotation ex + sum_list deltas"
  by (simp add: run_within new_Excavator_within yaw_accumulates)

text \<open>
  \<^bold>\<open>C3\<close>, as the specification words it, fails for \<open>setMainBodyRotation\<close>: no range
  \<open>[lo, hi]\<close> contains the yaw after every sequence of calls, since one call with
  \<open>hi + 1\<close> on the fresh excavator already leaves it.
\<close>

theorem yaw_unbounded_counterexample:
  "\<not> (\<exists>lo hi. \<forall>cs. lo \<le> mainBodyRotation (run cs simulatorExcavator)
                      \<and> mainBodyRotation (run cs simulatorExcavator) \<le> hi)"
proof
  assume "\<exists>lo hi. \<forall>cs. lo \<le> mainBodyRotation (run cs simulatorExcavator)
                      \<and> mainBodyRotation (run cs simulatorExcavator) \<le> hi"
  then obtain lo hi where
    bound: "\<And>cs. mainBodyRotation (run cs simulatorExcavator) \<le> hi"
    by blast
  have "mainBodyRotation (run [SetMainBodyRotation (hi + 1)] simulatorExcavator) = hi + 1"
    by (simp add: run_def setMainBodyRotation_def simulatorExcavator_def new_Excavator_def)
  with bound [of "[SetMainBodyRotation (hi + 1)]"] show False by simp
qed


section \<open>Mass distribution\<close>

lemmas volume_defs =
  chassisVolume_def bladeVolume_def mainBodyVolume_def arm1SegmentLength_def arm1Part1Volume_def
  arm1Part2Volume_def arm2Volume_def bucketVolume_def thumbVolume_def

lemmas mass_defs =
  chassisMass_def bladeMass_def mainBodyMass_def arm1Part1Mass_def arm1Part2Mass_def
  arm2Mass_def bucketMass_def thumbMass_def

lemma new_Excavator_masses:
  "mass (physicsBody (new_Excavator d i p)) = chassisMass d"
  "proxyMassSum (new_Excavator d i p) =
     bladeMass d + mainBodyMass d + arm1Part1Mass d + arm1Part2Mass d + arm2Mass d
       + bucketMass d + thumbMass d"
  by (simp_all add: proxyMassSum_def new_Excavator_def new_Body_def)

lemma totalVolume_dims: "totalVolume dims = 454 / 100"
  by (simp add: totalVolume_def volume_defs dims_def)

lemma share_sum:
  fixes t m :: real
  shows "(a / t) * m + ((b / t) * m + (c / t) * m + (e / t) * m + (f / t) * m + (g / t) * m
           + (h / t) * m + (k / t) * m)
         = ((a + b + c + e + f + g + h + k) / t) * m"
  by (simp add: add_divide_distrib distrib_right)

lemma mass_shares:
  assumes "totalVolume d \<noteq> 0"
  shows "chassisMass d + (bladeMass d + mainBodyMass d + arm1Part1Mass d + arm1Part2Mass d
           + arm2Mass d + bucketMass d + thumbMass d) = totalMass"
proof -
  have "chassisMass d + (bladeMass d + mainBodyMass d + arm1Part1Mass d + arm1Part2Mass d
           + arm2Mass d + bucketMass d + thumbMass d)
        = ((chassisVolume d + bladeVolume d + mainBodyVolume d + arm1Part1Volume d
             + arm1Part2Volume d + arm2Volume d + bucketVolume d + thumbVolume d)
            / totalVolume d) * totalMass"
    unfolding mass_defs by (rule share_sum)
  also have "\<dots> = (totalVolume d / totalVolume d) * totalMass"
    by (simp only: totalVolume_def)
  also have "\<dots> = totalMass"
    using assms by simp
  finally show ?thesis .
qed

lemma proxy_volumes_dims:
  "bladeVolume dims = 64 / 1000" "mainBodyVolume dims = 224 / 100"
  "arm1Part1Volume dims = 126 / 1000" "arm1Part2Volume dims = 126 / 1000"
  "arm2Volume dims = 6 / 100" "bucketVolume dims = 1 / 10" "thumbVolume dims = 24 / 1000"
  by (simp_all add: volume_defs dims_def)

text \<open>
  \<^bold>\<open>C4\<close>, as the specification words it, fails: with the dimension constants of the class
  the seven proxy parts weigh \<open>124259 / 227\<close> (about 547.4) together, not 907; the chassis
  holds the rest.
\<close>

theorem seven_proxy_masses_counterexample:
  "proxyMassSum simulatorExcavator \<noteq> 907"
proof -
  have "proxyMassSum simulatorExcavator = 124259 / 227"
    unfolding simulatorExcavator_def new_Excavator_masses
    by (simp add: bladeMass_def mainBodyMass_def arm1Part1Mass_def arm1Part2Mass_def
        arm2Mass_def bucketMass_def thumbMass_def totalVolume_dims proxy_volumes_dims
        totalMass_def)
  then show ?thesis by simp
qed

text \<open>
  \<^bold>\<open>C4\<close>, amended. At construction the masses of the chassis and of the seven proxy parts
  sum to the total of 907, for any values of the dimension constants whose total volume is
  not zero.
\<close>

theorem part_masses_sum_to_total:
  "totalVolume d \<noteq> 0 \<longrightarrow>
     mass (physicsBody (new_Excavator d i p)) + proxyMassSum (new_Excavator d i p) = 907"
  using mass_shares [of d] by (simp add: new_Excavator_masses totalMass_def)

theorem part_masses_sum_to_total_witness:
  "totalVolume dims \<noteq> 0
   \<and> mass (physicsBody (new_Excavator dims 1 (Vec3 0 1 0)))
       + proxyMassSum (new_Excavator dims 1 (Vec3 0 1 0)) = 907"
  using part_masses_sum_to_total [of dims 1 "Vec3 0 1 0"] by (simp add: totalVolume_dims)


section \<open>Ground contact\<close>

lemma vadd_zero: "vadd v (Vec3 0 0 0) = v"
  by (cases v) simp

lemma cross_zero: "cross (Vec3 0 0 0) v = Vec3 0 0 0"
  by (cases v) simp

lemma map_of_Map_set_same: "map_of (Map_set k v kvs) k = Some v"
  by (induction kvs) auto



lemma checkKinematicBody_below:
  assumes "bottomY body < 0.01"
  shows "checkKinematicBody clock (body, name) ex =
           trackCollision name (clock name) (Vec3 0 1 0) (Vec3 0 (forceMagnitude \<bar>bottomY body\<bar>) 0)
             (ex\<lparr> physicsBody :=
                    applyForce (Vec3 0 (forceMagnitude \<bar>bottomY body\<bar>) 0)
                      (vsub (position body) (position (physicsBody ex))) (physicsBody ex) \<rparr>)"
  using assms by (simp add: checkKinematicBody_def Let_def)

lemma physicsBody_trackCollision:
  "physicsBody (trackCollision name now n f ex) = physicsBody ex"
  by (simp add: trackCollision_def)

lemma collisionEvents_trackCollision:
  "collisionEvents (trackCollision name now n f ex) =
     Map_set name \<lparr> partName = name, timestamp = now, contactNormal = n, appliedForce = f,
                     isActive = True \<rparr> (collisionEvents ex)"
  by (simp add: trackCollision_def)

lemma force_applyForce:
  "btype b = DYNAMIC \<Longrightarrow> force (applyForce f r b) = vadd (force b) f"
  by (simp add: applyForce_def)

lemma checkKinematicBody_force:
  assumes "btype (physicsBody ex) = DYNAMIC" and "bottomY body < 0.01"
  shows "force (physicsBody (checkKinematicBody clock (body, name) ex)) =
           vadd (force (physicsBody ex)) (Vec3 0 (forceMagnitude \<bar>bottomY body\<bar>) 0)"
  using assms
  by (simp add: checkKinematicBody_below physicsBody_trackCollision force_applyForce)











lemmas construction_defs =
  simulatorExcavator_def new_Excavator_def new_Body_def dims_def arm1SegmentLength_def
  quat_identity_def vec_zero_def


lemma chassisMass_dims: "chassisMass dims = 81630 / 227"
  unfolding chassisMass_def totalVolume_dims
  by (simp add: chassisVolume_def totalMass_def dims_def)


lemma simulatorExcavator_chassis:
  "btype (physicsBody simulatorExcavator) = DYNAMIC"
  "force (physicsBody simulatorExcavator) = Vec3 0 0 0"
  by (simp_all add: simulatorExcavator_def new_Excavator_def new_Body_def chassisMass_dims
      vec_zero_def)









lemma scenario_bottomY:
  assumes "halfExtents body = Vec3 0.15 0.2 0.15" and "position body = Vec3 0 0.19 0"
    and "quaternion body = quat_identity"
  shows "bottomY body = - 0.01"
  using assms by (simp add: bottomY_def quat_identity_def)

text \<open>
  \<^bold>\<open>C6.\<close> For a proxy body with half-extents \<open>(0.15, 0.2, 0.15)\<close> at \<open>(0, 0.19, 0)\<close>
  with the identity orientation, the detector computes the bottom height \<open>-0.01\<close>, which
  is below the threshold, takes the depth 0.01, adds the upward force
  \<open>COLLISION_FORCE_MULTIPLIER * (1 + 0.01 * PENETRATION_FORCE_MULTIPLIER)\<close> to the chassis and
  records the contact as active in the ledger. (In exact arithmetic; the doubles of the
  code round \<open>0.19 - 0.2\<close> to within \<open>10\<^sup>-\<^sup>1\<^sup>7\<close> of \<open>-0.01\<close>.)
\<close>

theorem ground_contact_scenario:
  "halfExtents body = Vec3 0.15 0.2 0.15 \<and> position body = Vec3 0 0.19 0
   \<and> quaternion body = quat_identity \<and> btype (physicsBody ex) = DYNAMIC \<longrightarrow>
     bottomY body = - 0.01
   \<and> bottomY body < 0.01
   \<and> \<bar>bottomY body\<bar> = 0.01
   \<and> force (physicsBody (checkKinematicBody clock (body, name) ex))
       = vadd (force (physicsBody ex))
           (Vec3 0 (COLLISION_FORCE_MULTIPLIER * (1 + 0.01 * PENETRATION_FORCE_MULTIPLIER)) 0)
   \<and> map_of (collisionEvents (checkKinematicBody clock (body, name) ex)) name
       = Some \<lparr> partName = name, timestamp = clock name, contactNormal = Vec3 0 1 0,
                 appliedForce =
                   Vec3 0 (COLLISION_FORCE_MULTIPLIER * (1 + 0.01 * PENETRATION_FORCE_MULTIPLIER)) 0,
                 isActive = True \<rparr>"
proof (intro impI)
  assume a: "halfExtents body = Vec3 0.15 0.2 0.15 \<and> position body = Vec3 0 0.19 0
   \<and> quaternion body = quat_identity \<and> btype (physicsBody ex) = DYNAMIC"
  then have bottom: "bottomY body = - 0.01"
    by (simp add: scenario_bottomY)
  then have low: "bottomY body < 0.01" and depth: "\<bar>bottomY body\<bar> = 0.01"
    by simp_all
  have applied: "force (physicsBody (checkKinematicBody clock (body, name) ex))
       = vadd (force (physicsBody ex)) (Vec3 0 (forceMagnitude 0.01) 0)"
  proof -
    have "force (physicsBody (checkKinematicBody clock (body, name) ex))
            = vadd (force (physicsBody ex)) (Vec3 0 (forceMagnitude \<bar>bottomY body\<bar>) 0)"
      using a low by (simp add: checkKinematicBody_force)
    then show ?thesis by (simp only: depth)
  qed
  have entry: "map_of (collisionEvents (checkKinematicBody clock (body, name) ex)) name
       = Some \<lparr> partName = name, timestamp = clock name, contactNormal = Vec3 0 1 0,
                 appliedForce = Vec3 0 (forceMagnitude 0.01) 0, isActive = True \<rparr>"
  proof -
    have "map_of (collisionEvents (checkKinematicBody clock (body, name) ex)) name
       = Some \<lparr> partName = name, timestamp = clock name, contactNormal = Vec3 0 1 0,
                 appliedForce = Vec3 0 (forceMagnitude \<bar>bottomY body\<bar>) 0, isActive = True \<rparr>"
      using low
      by (simp add: checkKinematicBody_below collisionEvents_trackCollision map_of_Map_set_same)
    then show ?thesis by (simp only: depth)
  qed
  from bottom low depth applied entry
  show "bottomY body = - 0.01
   \<and> bottomY body < 0.01
   \<and> \<bar>bottomY body\<bar> = 0.01
   \<and> force (physicsBody (checkKinematicBody clock (body, name) ex))
       = vadd (force (physicsBody ex))
           (Vec3 0 (COLLISION_FORCE_MULTIPLIER * (1 + 0.01 * PENETRATION_FORCE_MULTIPLIER)) 0)
   \<and> map_of (collisionEvents (checkKinematicBody clock (body, name) ex)) name
       = Some \<lparr> partName = name, timestamp = clock name, contactNormal = Vec3 0 1 0,
                 appliedForce =
                   Vec3 0 (COLLISION_FORCE_MULTIPLIER * (1 + 0.01 * PENETRATION_FORCE_MULTIPLIER)) 0,
                 isActive = True \<rparr>"
    by (simp add: forceMagnitude_def)
qed

theorem ground_contact_scenario_witness:
  "halfExtents scenarioBody = Vec3 0.15 0.2 0.15 \<and> position scenarioBody = Vec3 0 0.19 0
   \<and> quaternion scenarioBody = quat_identity
   \<and> btype (physicsBody simulatorExcavator) = DYNAMIC
   \<and> bottomY scenarioBody = - 0.01
   \<and> force (physicsBody (checkKinematicBody (\<lambda>_. 0) (scenarioBody, ''Bucket'')
                             simulatorExcavator)) = Vec3 0 1020 0
   \<and> map_of (collisionEvents (checkKinematicBody (\<lambda>_. 0) (scenarioBody, ''Bucket'')
                                 simulatorExcavator)) ''Bucket''
       = Some \<lparr> partName = ''Bucket'', timestamp = 0, contactNormal = Vec3 0 1 0,
                 appliedForce = Vec3 0 1020 0, isActive = True \<rparr>"
proof -
  have body: "halfExtents scenarioBody = Vec3 0.15 0.2 0.15"
    "position scenarioBody = Vec3 0 0.19 0" "quaternion scenarioBody = quat_identity"
    by (simp_all add: scenarioBody_def new_Body_def)
  show ?thesis
    using ground_contact_scenario [of scenarioBody simulatorExcavator "\<lambda>_. 0" "''Bucket''"]
      body simulatorExcavator_chassis
    by (simp add: COLLISION_FORCE_MULTIPLIER_def PENETRATION_FORCE_MULTIPLIER_def)
qed


section \<open>The collision ledger\<close>

lemma keys_Map_set:
  "map fst (Map_set k v kvs) = (if k \<in> set (map fst kvs) then map fst kvs else map fst kvs @ [k])"
  by (induction kvs) (auto simp: rev_image_eqI)

lemma ledgerKeys_trackCollision:
  "ledgerKeys (trackCollision name now n f ex) =
     (if name \<in> set (ledgerKeys ex) then ledgerKeys ex else ledgerKeys ex @ [name])"
  by (simp add: ledgerKeys_def trackCollision_def keys_Map_set)

lemma ledgerKeys_physicsBody_update: "ledgerKeys (ex\<lparr> physicsBody := b \<rparr>) = ledgerKeys ex"
  by (simp add: ledgerKeys_def)

lemma ledgerKeys_resetFrameCollisions: "ledgerKeys (resetFrameCollisions now ex) = ledgerKeys ex"
  by (simp add: ledgerKeys_def resetFrameCollisions_def split_def comp_def)

lemma ledgerKeys_controls:
  "ledgerKeys (setMainBodyRotation delta ex) = ledgerKeys ex"
  "ledgerKeys (setArm1Angle delta ex) = ledgerKeys ex"
  "ledgerKeys (setArm2Angle delta ex) = ledgerKeys ex"
  "ledgerKeys (setBucketAngle delta ex) = ledgerKeys ex"
  "ledgerKeys (setThumbAngle delta ex) = ledgerKeys ex"
  "ledgerKeys (setBladeHeight delta ex) = ledgerKeys ex"
  "ledgerKeys (setTreadForces l r ex) = ledgerKeys ex"
  "ledgerKeys (applyTreadForces l r ex) = ledgerKeys ex"
  by (simp_all add: ledgerKeys_def setMainBodyRotation_def setter_defs setTreadForces_def
      applyTreadForces_def Let_def)

lemma ledgerKeys_setProxyPose: "ledgerKeys (setProxyPose part p q ex) = ledgerKeys ex"
  by (cases part) (simp_all add: ledgerKeys_def)

lemma ledgerKeys_handleControls: "ledgerKeys (handleControls dt g k ex) = ledgerKeys ex"
  by (simp add: handleControls_def Let_def split_def ledgerKeys_controls)

lemma keysExtend_refl: "keysExtend ks ks"
  by (simp add: keysExtend_def)

lemma keysExtend_trans: "keysExtend a b \<Longrightarrow> keysExtend b c \<Longrightarrow> keysExtend a c"
  by (auto simp: keysExtend_def)

lemma keysExtend_trackCollision:
  "keysExtend (ledgerKeys ex) (ledgerKeys (trackCollision name now n f ex))"
  by (auto simp: keysExtend_def ledgerKeys_trackCollision)

lemma keysExtend_checkKinematicBody:
  "keysExtend (ledgerKeys ex) (ledgerKeys (checkKinematicBody clock bn ex))"
proof (cases bn)
  case (Pair body name)
  show ?thesis
  proof (cases "bottomY body < 0.01")
    case True
    have "keysExtend (ledgerKeys ex) (ledgerKeys (trackCollision name (clock name) (Vec3 0 1 0)
            (Vec3 0 (forceMagnitude \<bar>bottomY body\<bar>) 0)
            (ex\<lparr> physicsBody := applyForce (Vec3 0 (forceMagnitude \<bar>bottomY body\<bar>) 0)
                      (vsub (position body) (position (physicsBody ex))) (physicsBody ex) \<rparr>)))"
      using keysExtend_trackCollision [of "ex\<lparr> physicsBody := applyForce (Vec3 0 (forceMagnitude \<bar>bottomY body\<bar>) 0)
                      (vsub (position body) (position (physicsBody ex))) (physicsBody ex) \<rparr>"]
      by (simp add: ledgerKeys_physicsBody_update)
    with True Pair show ?thesis
      by (simp add: checkKinematicBody_below)
  next
    case False
    with Pair show ?thesis
      by (simp add: checkKinematicBody_def keysExtend_refl)
  qed
qed

lemma keysExtend_checkKinematicBodies:
  "keysExtend (ledgerKeys ex) (ledgerKeys (fold (checkKinematicBody clock) bs ex))"
proof (induction bs arbitrary: ex)
  case Nil
  show ?case by (simp add: keysExtend_refl)
next
  case (Cons b bs)
  show ?case
    using keysExtend_checkKinematicBody [of ex clock b] Cons [of "checkKinematicBody clock b ex"]
    by (simp add: keysExtend_trans)
qed

lemma keysExtend_applyCollisionForce:
  "keysExtend (ledgerKeys ex) (ledgerKeys (applyCollisionForce c b name now ex))"
proof (cases c)
  case None
  then show ?thesis by (simp add: applyCollisionForce_def keysExtend_refl)
next
  case (Some ce)
  then show ?thesis
    using keysExtend_trackCollision
      [of "ex\<lparr> physicsBody := applyForce
                (scale (ni ce) reactionForceMultiplier)
                (vsub (position b) (position (physicsBody ex))) (physicsBody ex) \<rparr>" name now]
    by (simp add: applyCollisionForce_def Let_def ledgerKeys_physicsBody_update)
qed

lemma keysExtend_onCollide:
  "keysExtend (ledgerKeys ex) (ledgerKeys (onCollide part c now ex))"
  by (cases part) (simp_all add: keysExtend_applyCollisionForce)

lemma keysExtend_call: "keysExtend (ledgerKeys ex) (ledgerKeys (call c ex))"
  by (cases c)
    (simp_all add: ledgerKeys_controls ledgerKeys_resetFrameCollisions ledgerKeys_setProxyPose
      ledgerKeys_handleControls keysExtend_refl checkKinematicCollisions_def
      keysExtend_checkKinematicBodies keysExtend_onCollide)

lemma keysExtend_run: "keysExtend (ledgerKeys ex) (ledgerKeys (run cs ex))"
  unfolding run_def
proof (induction cs arbitrary: ex)
  case Nil
  show ?case by (simp add: keysExtend_refl)
next
  case (Cons c cs)
  show ?case
    using keysExtend_call [of ex c] Cons [of "call c ex"]
    by (simp add: keysExtend_trans)
qed

lemma ledgerKeys_new_Excavator: "ledgerKeys (new_Excavator d i p) = []"
  by (simp add: ledgerKeys_def new_Excavator_def)

lemma distinct_ledgerKeys_run: "distinct (ledgerKeys (run cs (new_Excavator d i p)))"
  using keysExtend_run [of "new_Excavator d i p" cs]
  by (simp add: keysExtend_def ledgerKeys_new_Excavator)

lemma map_of_resetFrameCollisions:
  "map_of (collisionEvents (resetFrameCollisions now ex)) name
     = map_option (ageCollision now) (map_of (collisionEvents ex) name)"
  by (simp add: resetFrameCollisions_def map_of_map)


lemma ledgerKeys_repeated_contact:
  assumes "name \<in> set (ledgerKeys ex)" and "bottomY body < 0.01"
  shows "ledgerKeys (checkKinematicBody clock (body, name) ex) = ledgerKeys ex"
  using assms
  by (simp add: checkKinematicBody_below ledgerKeys_trackCollision ledgerKeys_physicsBody_update)

lemma entry_after_contact:
  assumes "bottomY body < 0.01"
  shows "map_of (collisionEvents (checkKinematicBody clock (body, name) ex)) name
           = Some \<lparr> partName = name, timestamp = clock name, contactNormal = Vec3 0 1 0,
                     appliedForce = Vec3 0 (forceMagnitude \<bar>bottomY body\<bar>) 0,
                     isActive = True \<rparr>"
  using assms
  by (simp add: checkKinematicBody_below collisionEvents_trackCollision map_of_Map_set_same)

lemma ledgerKeys_repeated_collision:
  assumes "name \<in> set (ledgerKeys ex)"
  shows "ledgerKeys (applyCollisionForce c b name now ex) = ledgerKeys ex"
  using assms
  by (cases c)
    (simp_all add: applyCollisionForce_def Let_def ledgerKeys_trackCollision
      ledgerKeys_physicsBody_update)

lemma entry_after_collision:
  "map_of (collisionEvents (applyCollisionForce (Some ce) b name now ex)) name
     = Some \<lparr> partName = name, timestamp = now, contactNormal = ni ce,
               appliedForce = scale (ni ce) reactionForceMultiplier, isActive = True \<rparr>"
  by (simp add: applyCollisionForce_def Let_def collisionEvents_trackCollision
      map_of_Map_set_same)

lemma map_of_Map_set_other: "k' \<noteq> k \<Longrightarrow> map_of (Map_set k v kvs) k' = map_of kvs k'"
  by (induction kvs) auto

lemma entry_kept_by_other_part:
  "name \<noteq> snd bn \<Longrightarrow>
     map_of (collisionEvents (checkKinematicBody clock bn ex)) name
       = map_of (collisionEvents ex) name"
  by (cases bn)
    (simp add: checkKinematicBody_def Let_def collisionEvents_trackCollision map_of_Map_set_other)

lemma entry_kept_by_other_parts:
  "name \<notin> snd ` set bs \<Longrightarrow>
     map_of (collisionEvents (fold (checkKinematicBody clock) bs ex)) name
       = map_of (collisionEvents ex) name"
  by (induction bs arbitrary: ex) (simp_all add: entry_kept_by_other_part)

lemma entry_after_check:
  assumes "(body, name) \<in> set bs" and "distinct (map snd bs)" and "bottomY body < 0.01"
  shows "map_of (collisionEvents (fold (checkKinematicBody clock) bs ex)) name
           = Some \<lparr> partName = name, timestamp = clock name, contactNormal = Vec3 0 1 0,
                     appliedForce = Vec3 0 (forceMagnitude \<bar>bottomY body\<bar>) 0,
                     isActive = True \<rparr>"
  using assms
proof (induction bs arbitrary: ex)
  case Nil
  then show ?case by simp
next
  case (Cons b bs)
  show ?case
  proof (cases "b = (body, name)")
    case True
    with Cons.prems have "name \<notin> snd ` set bs" by simp
    then show ?thesis
      using True Cons.prems(3)
      by (simp add: entry_kept_by_other_parts entry_after_contact)
  next
    case False
    with Cons.prems have "(body, name) \<in> set bs" and "distinct (map snd bs)" by simp_all
    then show ?thesis
      using Cons.IH Cons.prems(3) by simp
  qed
qed

lemma distinct_part_names: "distinct (map snd (kinematicBodies ex))"
  by (simp add: kinematicBodies_def)

lemma entry_after_onCollide:
  "map_of (collisionEvents (onCollide Blade (Some ce) t ex)) ''Blade''
     = Some \<lparr> partName = ''Blade'', timestamp = t, contactNormal = ni ce,
               appliedForce = scale (ni ce) reactionForceMultiplier, isActive = True \<rparr>"
  "map_of (collisionEvents (onCollide MainBody (Some ce) t ex)) ''Main Body''
     = Some \<lparr> partName = ''Main Body'', timestamp = t, contactNormal = ni ce,
               appliedForce = scale (ni ce) reactionForceMultiplier, isActive = True \<rparr>"
  "map_of (collisionEvents (onCollide Arm1Seg1 (Some ce) t ex)) ''Arm 1 Seg 1''
     = Some \<lparr> partName = ''Arm 1 Seg 1'', timestamp = t, contactNormal = ni ce,
               appliedForce = scale (ni ce) reactionForceMultiplier, isActive = True \<rparr>"
  "map_of (collisionEvents (onCollide Arm1Seg2 (Some ce) t ex)) ''Arm 1 Seg 2''
     = Some \<lparr> partName = ''Arm 1 Seg 2'', timestamp = t, contactNormal = ni ce,
               appliedForce = scale (ni ce) reactionForceMultiplier, isActive = True \<rparr>"
  "map_of (collisionEvents (onCollide Arm2 (Some ce) t ex)) ''Arm 2''
     = Some \<lparr> partName = ''Arm 2'', timestamp = t, contactNormal = ni ce,
               appliedForce = scale (ni ce) reactionForceMultiplier, isActive = True \<rparr>"
  "map_of (collisionEvents (onCollide Bucket (Some ce) t ex)) ''Bucket''
     = Some \<lparr> partName = ''Bucket'', timestamp = t, contactNormal = ni ce,
               appliedForce = scale (ni ce) reactionForceMultiplier, isActive = True \<rparr>"
  "map_of (collisionEvents (onCollide Thumb (Some ce) t ex)) ''Thumb''
     = Some \<lparr> partName = ''Thumb'', timestamp = t, contactNormal = ni ce,
               appliedForce = scale (ni ce) reactionForceMultiplier, isActive = True \<rparr>"
  by (simp_all add: entry_after_collision)

text \<open>
  \<^bold>\<open>C7.\<close> The collision ledger holds at most one entry per part name in every state
  reached from the constructor; no call removes a key, and none duplicates one. A repeated
  contact of a part that already has an entry leaves the keys as they are and overwrites
  the entry, on both paths: the ground contact with its timestamp, the upward normal and
  the force it applied, the solver collision with its timestamp, the contact's normal and
  that normal times the reaction multiplier, each marked active. So does a whole run of
  \<open>checkKinematicCollisions\<close> for every part it finds low, and each of the seven collide
  listeners under the name of its part. The frame-start pass \<open>resetFrameCollisions\<close> keeps the keys and turns an entry
  inactive exactly when more than 100 ms lie between its timestamp and now, leaving it
  untouched otherwise.
\<close>

theorem collision_ledger_entries:
  "distinct (ledgerKeys (run cs (new_Excavator d i p)))
   \<and> set (ledgerKeys ex) \<subseteq> set (ledgerKeys (call c ex))
   \<and> (distinct (ledgerKeys ex) \<longrightarrow> distinct (ledgerKeys (call c ex)))
   \<and> (name \<in> set (ledgerKeys ex) \<and> bottomY body < 0.01 \<longrightarrow>
         ledgerKeys (checkKinematicBody clock (body, name) ex) = ledgerKeys ex
       \<and> map_of (collisionEvents (checkKinematicBody clock (body, name) ex)) name
           = Some \<lparr> partName = name, timestamp = clock name, contactNormal = Vec3 0 1 0,
                     appliedForce = Vec3 0 (forceMagnitude \<bar>bottomY body\<bar>) 0,
                     isActive = True \<rparr>)
   \<and> (name \<in> set (ledgerKeys ex) \<longrightarrow>
         ledgerKeys (applyCollisionForce contact partBody name t ex) = ledgerKeys ex
       \<and> map_of (collisionEvents (applyCollisionForce (Some ce) partBody name t ex)) name
           = Some \<lparr> partName = name, timestamp = t, contactNormal = ni ce,
                     appliedForce = scale (ni ce) reactionForceMultiplier, isActive = True \<rparr>)
   \<and> ((part, label) \<in> set (kinematicBodies ex) \<and> bottomY part < 0.01 \<longrightarrow>
         map_of (collisionEvents (checkKinematicCollisions clock ex)) label
           = Some \<lparr> partName = label, timestamp = clock label, contactNormal = Vec3 0 1 0,
                     appliedForce = Vec3 0 (forceMagnitude \<bar>bottomY part\<bar>) 0,
                     isActive = True \<rparr>)
   \<and> list_all
         (\<lambda>(listener, label).
            map_of (collisionEvents (onCollide listener (Some ce) t ex)) label
              = Some \<lparr> partName = label, timestamp = t, contactNormal = ni ce,
                        appliedForce = scale (ni ce) reactionForceMultiplier, isActive = True \<rparr>)
         [(Blade, ''Blade''), (MainBody, ''Main Body''), (Arm1Seg1, ''Arm 1 Seg 1''),
          (Arm1Seg2, ''Arm 1 Seg 2''), (Arm2, ''Arm 2''), (Bucket, ''Bucket''),
          (Thumb, ''Thumb'')]
   \<and> ledgerKeys (resetFrameCollisions now ex) = ledgerKeys ex
   \<and> (map_of (collisionEvents ex) key = Some data \<longrightarrow>
         map_of (collisionEvents (resetFrameCollisions now ex)) key
           = Some (if now - timestamp data > 100 then data\<lparr> isActive := False \<rparr> else data))"
proof -
  have checked: "(part, label) \<in> set (kinematicBodies ex) \<and> bottomY part < 0.01 \<longrightarrow>
         map_of (collisionEvents (checkKinematicCollisions clock ex)) label
           = Some \<lparr> partName = label, timestamp = clock label, contactNormal = Vec3 0 1 0,
                     appliedForce = Vec3 0 (forceMagnitude \<bar>bottomY part\<bar>) 0,
                     isActive = True \<rparr>"
    unfolding checkKinematicCollisions_def
    using entry_after_check [of part label "kinematicBodies ex" clock ex] distinct_part_names
    by blast
  have ext: "keysExtend (ledgerKeys ex) (ledgerKeys (call c ex))"
    by (rule keysExtend_call)
  have aged: "map_of (collisionEvents ex) key = Some data \<longrightarrow>
         map_of (collisionEvents (resetFrameCollisions now ex)) key
           = Some (if now - timestamp data > 100 then data\<lparr> isActive := False \<rparr> else data)"
    by (simp add: map_of_resetFrameCollisions ageCollision_def)
  show ?thesis
    using ext aged checked
    by (simp add: keysExtend_def distinct_ledgerKeys_run ledgerKeys_repeated_contact
        entry_after_contact ledgerKeys_repeated_collision entry_after_collision
        entry_after_onCollide ledgerKeys_resetFrameCollisions)
qed

lemma contactExcavator_ledger:
  "collisionEvents contactExcavator
     = [(''Bucket'', \<lparr> partName = ''Bucket'', timestamp = 0, contactNormal = Vec3 0 1 0,
                        appliedForce = Vec3 0 1020 0, isActive = True \<rparr>)]"
proof -
  have "bottomY scenarioBody = - 0.01"
    by (simp add: scenario_bottomY scenarioBody_def new_Body_def)
  moreover have "collisionEvents simulatorExcavator = []"
    by (simp add: simulatorExcavator_def new_Excavator_def)
  ultimately show ?thesis
    by (simp add: contactExcavator_def checkKinematicBody_below collisionEvents_trackCollision
        forceMagnitude_def COLLISION_FORCE_MULTIPLIER_def PENETRATION_FORCE_MULTIPLIER_def)
qed

theorem collision_ledger_entries_witness:
  "distinct (ledgerKeys (run [PostStep (\<lambda>_. 0), PostStep (\<lambda>_. 16)] (new_Excavator dims 1 (Vec3 0 1 0))))
   \<and> distinct (ledgerKeys contactExcavator)
   \<and> distinct (ledgerKeys (call (PostStep (\<lambda>_. 16)) contactExcavator))
   \<and> ''Bucket'' \<in> set (ledgerKeys contactExcavator)
   \<and> bottomY scenarioBody < 0.01
   \<and> ledgerKeys (checkKinematicBody (\<lambda>_. 50) (scenarioBody, ''Bucket'') contactExcavator)
       = [''Bucket'']
   \<and> map_of (collisionEvents (checkKinematicBody (\<lambda>_. 50) (scenarioBody, ''Bucket'')
                                 contactExcavator)) ''Bucket''
       = Some \<lparr> partName = ''Bucket'', timestamp = 50, contactNormal = Vec3 0 1 0,
                 appliedForce = Vec3 0 1020 0, isActive = True \<rparr>
   \<and> ledgerKeys (applyCollisionForce (Some \<lparr> bi = 7, ni = Vec3 1 0 0 \<rparr>) scenarioBody ''Bucket'' 60
                   contactExcavator)
       = [''Bucket'']
   \<and> map_of (collisionEvents (applyCollisionForce (Some \<lparr> bi = 7, ni = Vec3 1 0 0 \<rparr>) scenarioBody
                                 ''Bucket'' 60 contactExcavator)) ''Bucket''
       = Some \<lparr> partName = ''Bucket'', timestamp = 60, contactNormal = Vec3 1 0 0,
                 appliedForce = Vec3 5000 0 0, isActive = True \<rparr>
   \<and> (bucketBody contactExcavator, ''Bucket'') \<in> set (kinematicBodies contactExcavator)
   \<and> bottomY (bucketBody contactExcavator) < 0.01
   \<and> map_of (collisionEvents (checkKinematicCollisions (\<lambda>_. 50) contactExcavator)) ''Bucket''
       = Some \<lparr> partName = ''Bucket'', timestamp = 50, contactNormal = Vec3 0 1 0,
                 appliedForce = Vec3 0 1400 0, isActive = True \<rparr>
   \<and> map_of (collisionEvents (onCollide Bucket (Some \<lparr> bi = 7, ni = Vec3 1 0 0 \<rparr>) 60
                                 contactExcavator)) ''Bucket''
       = Some \<lparr> partName = ''Bucket'', timestamp = 60, contactNormal = Vec3 1 0 0,
                 appliedForce = Vec3 5000 0 0, isActive = True \<rparr>
   \<and> map_of (collisionEvents contactExcavator) ''Bucket''
       = Some \<lparr> partName = ''Bucket'', timestamp = 0, contactNormal = Vec3 0 1 0,
                 appliedForce = Vec3 0 1020 0, isActive = True \<rparr>
   \<and> map_of (collisionEvents (resetFrameCollisions 101 contactExcavator)) ''Bucket''
       = Some \<lparr> partName = ''Bucket'', timestamp = 0, contactNormal = Vec3 0 1 0,
                 appliedForce = Vec3 0 1020 0, isActive = False \<rparr>"
proof -
  have bottom: "bottomY scenarioBody = - 0.01"
    by (simp add: scenario_bottomY scenarioBody_def new_Body_def)
  have keys: "ledgerKeys contactExcavator = [''Bucket'']"
    by (simp add: ledgerKeys_def contactExcavator_ledger)
  have bucket: "bucketBody contactExcavator = bucketBody simulatorExcavator"
    using bottom
    by (simp add: contactExcavator_def checkKinematicBody_below trackCollision_def)
  have bucket_low: "bottomY (bucketBody contactExcavator) = - (1 / 5)"
    by (simp add: bucket bottomY_def construction_defs)
  have listed: "(bucketBody contactExcavator, ''Bucket'') \<in> set (kinematicBodies contactExcavator)"
    by (simp add: kinematicBodies_def)
  show ?thesis
    using collision_ledger_entries [where cs = "[PostStep (\<lambda>_. 0), PostStep (\<lambda>_. 16)]"
        and d = dims and i = 1 and p = "Vec3 0 1 0" and ex = contactExcavator
        and c = "PostStep (\<lambda>_. 16)" and name = "''Bucket''" and body = scenarioBody
        and clock = "\<lambda>_. 50"
        and contact = "Some \<lparr> bi = 7, ni = Vec3 1 0 0 \<rparr>"
        and ce = "\<lparr> bi = 7, ni = Vec3 1 0 0 \<rparr>" and partBody = scenarioBody and t = 60
        and part = "bucketBody contactExcavator" and label = "''Bucket''"
        and now = 101 and key = "''Bucket''"
        and data = "\<lparr> partName = ''Bucket'', timestamp = 0, contactNormal = Vec3 0 1 0,
                 appliedForce = Vec3 0 1020 0, isActive = True \<rparr>"]
      bottom keys contactExcavator_ledger bucket_low listed
    by (simp add: forceMagnitude_def COLLISION_FORCE_MULTIPLIER_def PENETRATION_FORCE_MULTIPLIER_def
        reactionForceMultiplier_def)
qed


section \<open>Controls and propulsion\<close>

lemma max_min_specClamp: "max (- 1) (min 1 v) = specClamp v (- 1) (1::real)"
  by (simp add: specClamp_def max_def min_def)

lemma mergeStates_sticks:
  "leftStickX (mergeStates g k) = specClamp (leftStickX g + leftStickX k) (- 1) 1"
  "leftStickY (mergeStates g k) = specClamp (leftStickY g + leftStickY k) (- 1) 1"
  "rightStickX (mergeStates g k) = specClamp (rightStickX g + rightStickX k) (- 1) 1"
  "rightStickY (mergeStates g k) = specClamp (rightStickY g + rightStickY k) (- 1) 1"
  by (simp_all add: mergeStates_def max_min_specClamp)

lemma mainBodyRotation_after_setters:
  "mainBodyRotation (setArm1Angle delta ex) = mainBodyRotation ex"
  "mainBodyRotation (setArm2Angle delta ex) = mainBodyRotation ex"
  "mainBodyRotation (setBucketAngle delta ex) = mainBodyRotation ex"
  "mainBodyRotation (setThumbAngle delta ex) = mainBodyRotation ex"
  "mainBodyRotation (setBladeHeight delta ex) = mainBodyRotation ex"
  "mainBodyRotation (setTreadForces l r ex) = mainBodyRotation ex"
  "mainBodyRotation (applyTreadForces l r ex) = mainBodyRotation ex"
  by (simp_all add: setter_defs setTreadForces_def applyTreadForces_def Let_def)

lemma mainBodyRotation_handleControls:
  "mainBodyRotation (handleControls dt g k ex)
     = mainBodyRotation ex + leftStickX (mergeStates g k) * (2 * dt)"
  by (simp add: handleControls_def Let_def split_def mainBodyRotation_after_setters
      setMainBodyRotation_def)

text \<open>
  \<^bold>\<open>C8.\<close> When the gamepad and keyboard states are merged, each of the four stick axes is
  the sum of the two sources clamped to \<open>[-1, 1]\<close>; 0.6 on the gamepad's left stick X and
  0.6 on the keyboard's merge to exactly 1. The yaw command of \<open>handleControls\<close> is driven
  by that clamped value.
\<close>

theorem merged_sticks_additive_clamp:
  "leftStickX (mergeStates g k) = specClamp (leftStickX g + leftStickX k) (- 1) 1
   \<and> leftStickY (mergeStates g k) = specClamp (leftStickY g + leftStickY k) (- 1) 1
   \<and> rightStickX (mergeStates g k) = specClamp (rightStickX g + rightStickX k) (- 1) 1
   \<and> rightStickY (mergeStates g k) = specClamp (rightStickY g + rightStickY k) (- 1) 1
   \<and> leftStickX (mergeStates (g\<lparr> leftStickX := 0.6 \<rparr>) (k\<lparr> leftStickX := 0.6 \<rparr>)) = 1
   \<and> mainBodyRotation (handleControls dt g k ex)
       = mainBodyRotation ex + specClamp (leftStickX g + leftStickX k) (- 1) 1 * (2 * dt)"
  by (simp add: mergeStates_sticks mainBodyRotation_handleControls) (simp add: specClamp_def)

lemma applyTreadForces_dynamic:
  assumes "btype (physicsBody ex) = DYNAMIC"
  shows "applyTreadForces leftSpeed rightSpeed ex =
           ex\<lparr> physicsBody := (physicsBody ex)
                 \<lparr> force := vadd (force (physicsBody ex))
                              (scale (vmult (quaternion (physicsBody ex)) (Vec3 0 0 1))
                                 ((leftSpeed + rightSpeed) / 2 * 1500)),
                   torque := vadd (torque (physicsBody ex))
                               (Vec3 0 ((rightSpeed - leftSpeed) * 200) 0) \<rparr> \<rparr>"
  using assms
  by (simp add: applyTreadForces_def Let_def applyForce_def applyTorque_def vec_zero_def
      cross_zero vadd_zero)

lemma forward_unit:
  assumes "qx\<^sup>2 + qy\<^sup>2 + qz\<^sup>2 + qw\<^sup>2 = (1::real)"
  shows "dot (vmult (Quaternion qx qy qz qw) (Vec3 0 0 1)) (vmult (Quaternion qx qy qz qw) (Vec3 0 0 1)) = 1"
proof -
  have "dot (vmult (Quaternion qx qy qz qw) (Vec3 0 0 1)) (vmult (Quaternion qx qy qz qw) (Vec3 0 0 1))
          = (qx\<^sup>2 + qy\<^sup>2 + qz\<^sup>2 + qw\<^sup>2)\<^sup>2"
    by (simp add: Let_def power2_eq_square algebra_simps)
  with assms show ?thesis by simp
qed

lemma dot_scale: "dot (scale v s) (scale v s) = s\<^sup>2 * dot v v"
  by (cases v) (simp add: power2_eq_square algebra_simps)

lemma vsub_vadd: "vsub (vadd u v) u = v"
  by (cases u; cases v) simp


text \<open>
  \<^bold>\<open>C9.\<close> On the dynamic chassis, \<open>applyTreadForces\<close> adds to the force accumulator the
  forward direction (the orientation applied to \<open>(0, 0, 1)\<close>) scaled by the average speed
  times 1500, with no moment (the force acts at the centre of mass), adds the torque
  \<open>(rightSpeed - leftSpeed) * 200\<close> about the vertical axis, and changes nothing else of
  the excavator. For a unit orientation the added force has the magnitude
  \<open>\<bar>average * 1500\<bar>\<close>. This holds for all speeds, in \<open>[-1, 1]\<close> or not.
\<close>

theorem tread_forces_applied:
  "btype (physicsBody ex) = DYNAMIC \<longrightarrow>
     applyTreadForces leftSpeed rightSpeed ex =
       ex\<lparr> physicsBody := (physicsBody ex)
             \<lparr> force := vadd (force (physicsBody ex))
                          (scale (vmult (quaternion (physicsBody ex)) (Vec3 0 0 1))
                             ((leftSpeed + rightSpeed) / 2 * 1500)),
               torque := vadd (torque (physicsBody ex))
                           (Vec3 0 ((rightSpeed - leftSpeed) * 200) 0) \<rparr> \<rparr>
   \<and> (quaternion (physicsBody ex) = Quaternion qx qy qz qw \<and> qx\<^sup>2 + qy\<^sup>2 + qz\<^sup>2 + qw\<^sup>2 = 1 \<longrightarrow>
        dot (vsub (force (physicsBody (applyTreadForces leftSpeed rightSpeed ex)))
                  (force (physicsBody ex)))
            (vsub (force (physicsBody (applyTreadForces leftSpeed rightSpeed ex)))
                  (force (physicsBody ex)))
          = ((leftSpeed + rightSpeed) / 2 * 1500)\<^sup>2)"
proof (intro impI conjI)
  assume dyn: "btype (physicsBody ex) = DYNAMIC"
  then show "applyTreadForces leftSpeed rightSpeed ex =
       ex\<lparr> physicsBody := (physicsBody ex)
             \<lparr> force := vadd (force (physicsBody ex))
                          (scale (vmult (quaternion (physicsBody ex)) (Vec3 0 0 1))
                             ((leftSpeed + rightSpeed) / 2 * 1500)),
               torque := vadd (torque (physicsBody ex))
                           (Vec3 0 ((rightSpeed - leftSpeed) * 200) 0) \<rparr> \<rparr>"
    by (rule applyTreadForces_dynamic)
  assume unit: "quaternion (physicsBody ex) = Quaternion qx qy qz qw
                \<and> qx\<^sup>2 + qy\<^sup>2 + qz\<^sup>2 + qw\<^sup>2 = 1"
  have added: "vsub (force (physicsBody (applyTreadForces leftSpeed rightSpeed ex)))
             (force (physicsBody ex))
          = scale (vmult (Quaternion qx qy qz qw) (Vec3 0 0 1))
              ((leftSpeed + rightSpeed) / 2 * 1500)"
    using unit by (simp only: applyTreadForces_dynamic [OF dyn]) (simp add: vsub_vadd)
  have "dot (scale (vmult (Quaternion qx qy qz qw) (Vec3 0 0 1))
               ((leftSpeed + rightSpeed) / 2 * 1500))
            (scale (vmult (Quaternion qx qy qz qw) (Vec3 0 0 1))
               ((leftSpeed + rightSpeed) / 2 * 1500))
          = ((leftSpeed + rightSpeed) / 2 * 1500)\<^sup>2
              * dot (vmult (Quaternion qx qy qz qw) (Vec3 0 0 1))
                    (vmult (Quaternion qx qy qz qw) (Vec3 0 0 1))"
    by (rule dot_scale)
  also have "\<dots> = ((leftSpeed + rightSpeed) / 2 * 1500)\<^sup>2"
    using unit by (simp only: forward_unit mult_1_right)
  finally show "dot (vsub (force (physicsBody (applyTreadForces leftSpeed rightSpeed ex)))
                  (force (physicsBody ex)))
            (vsub (force (physicsBody (applyTreadForces leftSpeed rightSpeed ex)))
                  (force (physicsBody ex)))
          = ((leftSpeed + rightSpeed) / 2 * 1500)\<^sup>2"
    by (simp only: added)
qed

lemma simulatorExcavator_chassis_pose:
  "quaternion (physicsBody simulatorExcavator) = Quaternion 0 0 0 1"
  "torque (physicsBody simulatorExcavator) = Vec3 0 0 0"
  by (simp_all add: construction_defs)

theorem tread_forces_applied_witness:
  "btype (physicsBody simulatorExcavator) = DYNAMIC
   \<and> quaternion (physicsBody simulatorExcavator) = Quaternion 0 0 0 1
   \<and> (0::real)\<^sup>2 + 0\<^sup>2 + 0\<^sup>2 + 1\<^sup>2 = 1
   \<and> force (physicsBody (applyTreadForces 1 0.5 simulatorExcavator)) = Vec3 0 0 1125
   \<and> torque (physicsBody (applyTreadForces 1 0.5 simulatorExcavator)) = Vec3 0 (- 100) 0
   \<and> dot (vsub (force (physicsBody (applyTreadForces 1 0.5 simulatorExcavator)))
                (force (physicsBody simulatorExcavator)))
          (vsub (force (physicsBody (applyTreadForces 1 0.5 simulatorExcavator)))
                (force (physicsBody simulatorExcavator)))
       = 1125\<^sup>2"
proof -
  have inst: "applyTreadForces 1 0.5 simulatorExcavator =
       simulatorExcavator\<lparr> physicsBody := (physicsBody simulatorExcavator)
             \<lparr> force := vadd (force (physicsBody simulatorExcavator))
                          (scale (vmult (quaternion (physicsBody simulatorExcavator)) (Vec3 0 0 1))
                             ((1 + 0.5) / 2 * 1500)),
               torque := vadd (torque (physicsBody simulatorExcavator))
                           (Vec3 0 ((0.5 - 1) * 200) 0) \<rparr> \<rparr>
   \<and> dot (vsub (force (physicsBody (applyTreadForces 1 0.5 simulatorExcavator)))
                  (force (physicsBody simulatorExcavator)))
            (vsub (force (physicsBody (applyTreadForces 1 0.5 simulatorExcavator)))
                  (force (physicsBody simulatorExcavator)))
          = ((1 + 0.5) / 2 * 1500)\<^sup>2"
    using tread_forces_applied [of simulatorExcavator 1 "0.5" 0 0 0 1]
      simulatorExcavator_chassis simulatorExcavator_chassis_pose
    by simp
  have f: "force (physicsBody (applyTreadForces 1 0.5 simulatorExcavator)) = Vec3 0 0 1125"
    by (subst conjunct1 [OF inst])
      (simp add: simulatorExcavator_chassis simulatorExcavator_chassis_pose)
  have t: "torque (physicsBody (applyTreadForces 1 0.5 simulatorExcavator)) = Vec3 0 (- 100) 0"
    by (subst conjunct1 [OF inst])
      (simp add: simulatorExcavator_chassis simulatorExcavator_chassis_pose)
  from f t conjunct2 [OF inst] show ?thesis
    by (simp add: simulatorExcavator_chassis simulatorExcavator_chassis_pose)
qed

lemma treadSpeeds_bumpers:
  "leftBumper m \<Longrightarrow> fst (treadSpeeds m) = - 1"
  "rightBumper m \<Longrightarrow> snd (treadSpeeds m) = - 1"
  by (simp_all add: treadSpeeds_def Let_def)

lemma physicsBody_after_setters:
  "physicsBody (setMainBodyRotation delta ex) = physicsBody ex"
  "physicsBody (setArm1Angle delta ex) = physicsBody ex"
  "physicsBody (setArm2Angle delta ex) = physicsBody ex"
  "physicsBody (setBucketAngle delta ex) = physicsBody ex"
  "physicsBody (setThumbAngle delta ex) = physicsBody ex"
  "physicsBody (setBladeHeight delta ex) = physicsBody ex"
  "physicsBody (setTreadForces l r ex) = physicsBody ex"
  by (simp_all add: setMainBodyRotation_def setter_defs setTreadForces_def Let_def)

lemma physicsBody_applyTreadForces:
  "physicsBody ex = physicsBody ex' \<Longrightarrow>
     physicsBody (applyTreadForces l r ex) = physicsBody (applyTreadForces l r ex')"
  by (simp add: applyTreadForces_def Let_def)

lemma handleControls_treads:
  "leftTreadForce (handleControls dt g k ex) = fst (treadSpeeds (mergeStates g k))"
  "rightTreadForce (handleControls dt g k ex) = snd (treadSpeeds (mergeStates g k))"
  "physicsBody (handleControls dt g k ex)
     = physicsBody (applyTreadForces (fst (treadSpeeds (mergeStates g k)))
                      (snd (treadSpeeds (mergeStates g k))) ex)"
  by (simp_all add: handleControls_def Let_def split_def applyTreadForces_def setTreadForces_def
      physicsBody_after_setters)

text \<open>
  \<^bold>\<open>C10.\<close> In \<open>handleControls\<close> a pressed bumper overrides the trigger of its side:
  whenever the merged left bumper is set, the left tread speed is \<open>-1\<close> whatever the merged
  left trigger, both as stored by \<open>setTreadForces\<close> and as applied by
  \<open>applyTreadForces\<close>; the same holds for the right bumper and the right tread speed.
\<close>

theorem bumper_overrides_trigger:
  "(leftBumper (mergeStates g k) \<longrightarrow>
      fst (treadSpeeds (mergeStates g k)) = - 1
    \<and> leftTreadForce (handleControls dt g k ex) = - 1
    \<and> physicsBody (handleControls dt g k ex)
        = physicsBody (applyTreadForces (- 1) (snd (treadSpeeds (mergeStates g k))) ex))
   \<and> (rightBumper (mergeStates g k) \<longrightarrow>
      snd (treadSpeeds (mergeStates g k)) = - 1
    \<and> rightTreadForce (handleControls dt g k ex) = - 1
    \<and> physicsBody (handleControls dt g k ex)
        = physicsBody (applyTreadForces (fst (treadSpeeds (mergeStates g k))) (- 1) ex))"
  by (simp add: handleControls_treads treadSpeeds_bumpers)

theorem bumper_overrides_trigger_witness:
  "leftBumper (mergeStates bumperGamepad triggerKeyboard)
   \<and> rightBumper (mergeStates bumperGamepad triggerKeyboard)
   \<and> leftTrigger (mergeStates bumperGamepad triggerKeyboard) = 1
   \<and> rightTrigger (mergeStates bumperGamepad triggerKeyboard) = 1
   \<and> treadSpeeds (mergeStates bumperGamepad triggerKeyboard) = (- 1, - 1)
   \<and> leftTreadForce (handleControls (1 / 60) bumperGamepad triggerKeyboard simulatorExcavator) = - 1
   \<and> rightTreadForce (handleControls (1 / 60) bumperGamepad triggerKeyboard simulatorExcavator) = - 1
   \<and> physicsBody (handleControls (1 / 60) bumperGamepad triggerKeyboard simulatorExcavator)
       = physicsBody (applyTreadForces (- 1) (- 1) simulatorExcavator)"
proof -
  have m: "leftBumper (mergeStates bumperGamepad triggerKeyboard)"
    "rightBumper (mergeStates bumperGamepad triggerKeyboard)"
    "leftTrigger (mergeStates bumperGamepad triggerKeyboard) = 1"
    "rightTrigger (mergeStates bumperGamepad triggerKeyboard) = 1"
    by (simp_all add: mergeStates_def bumperGamepad_def triggerKeyboard_def getDefaultState_def)
  show ?thesis
    using bumper_overrides_trigger
      [of bumperGamepad triggerKeyboard "1 / 60" simulatorExcavator] m
    by (simp add: prod_eq_iff)
qed

end
